theory Spec2Isabelle
  imports Main
begin

chapter \<open>The backup service of Cinder\<close>

text \<open>
  An embedding of the orchestration code of \<^verbatim>\<open>cinder/backup\<close>: the request side
  (\<^verbatim>\<open>api.py\<close>), the client of the message bus (\<^verbatim>\<open>rpcapi.py\<close>) and the executor
  (\<^verbatim>\<open>manager.py\<close>). Every function takes the state it reads and returns the state it
  leaves, also when it raises: the result is a pair of an exception or a value, and
  the state. Logging and usage notifications are left out. Statuses are the strings
  the source compares; the status of a volume is nullable.
\<close>

section \<open>Python values used by the backup service\<close>

text \<open>
  Strings are Python byte strings. \<open>str_in needle hay\<close> is Python's
  \<^verbatim>\<open>needle in hay\<close> on strings, \<open>py_last6\<close> is the slice \<^verbatim>\<open>s[-6:]\<close> and
  \<open>py_drop_last6\<close> is \<^verbatim>\<open>s[:-6]\<close>. A dictionary is an association list read with
  \<open>map_of\<close>; a missing key raises \<open>KeyError\<close>.
\<close>

primrec startswith :: "string \<Rightarrow> string \<Rightarrow> bool" where
  "startswith s [] = True"
| "startswith s (p # ps) = (case s of [] \<Rightarrow> False | c # cs \<Rightarrow> c = p \<and> startswith cs ps)"

primrec str_in_from :: "string \<Rightarrow> string \<Rightarrow> bool" where
  "str_in_from needle [] = (needle = [])"
| "str_in_from needle (c # cs) = (startswith (c # cs) needle \<or> str_in_from needle cs)"

definition str_in :: "string \<Rightarrow> string \<Rightarrow> bool" where
  "str_in needle hay = str_in_from needle hay"

definition py_last6 :: "string \<Rightarrow> string" where
  "py_last6 s = drop (length s - 6) s"

definition py_drop_last6 :: "string \<Rightarrow> string" where
  "py_drop_last6 s = take (length s - 6) s"

text \<open>Truth value of an optional string: \<^verbatim>\<open>None\<close> and \<^verbatim>\<open>''\<close> are false.\<close>

definition truthy :: "string option \<Rightarrow> bool" where
  "truthy d = (case d of None \<Rightarrow> False | Some s \<Rightarrow> s \<noteq> [])"

type_synonym 'v dict = "(string \<times> 'v) list"

definition MAGICSTR :: string where
  "MAGICSTR = ''!@##@!''"

definition PERIODICSTR :: string where
  "PERIODICSTR = ''%#periodic%#''"

definition MOST_BACKUP_RETRIES :: nat where
  "MOST_BACKUP_RETRIES = 720"

definition FUJITSU_CLONE_START :: string where
  "FUJITSU_CLONE_START = ''[]_S_''"

definition FUJITSU_CLONE_END :: string where
  "FUJITSU_CLONE_END = ''[]_F_''"

definition FUJITSI_VOLUME_TYPE_NAME :: string where
  "FUJITSI_VOLUME_TYPE_NAME = ''fujitsu-ipsan''"

definition EBS_VOLUME_TYPE_NAME :: string where
  "EBS_VOLUME_TYPE_NAME = ''ebs-data''"

section \<open>Exceptions\<close>

text \<open>
  Every exception the modelled code raises or lets through. The two quota errors carry
  the numbers the source passes to them; \<open>UnboundLocalError\<close> names the local variable
  read before assignment; \<open>CollaboratorError\<close> stands for whatever a collaborator
  outside \<^verbatim>\<open>cinder/backup\<close> raises (record store, quota engine, drivers, compute API),
  with its message. \<open>text_type\<close> is \<^verbatim>\<open>six.text_type(err)\<close> for the exceptions whose
  text a handler records; no other exception reaches such a handler.
\<close>

datatype exc =
    PolicyNotAuthorized
  | VolumeNotFound
  | BackupNotFound
  | InvalidVolume
  | InvalidBackup
  | ServiceNotFound
  | VolumeBackupSizeExceedsAvailableQuota int int int
  | BackupLimitExceeded int
  | BackupFailedToGetVolumeBackend string
  | DriverNotInitialized string
  | KeyError string
  | IndexError
  | TypeError
  | ValueError
  | UnboundLocalError string
  | APITimeout
  | ServerNotFound
  | QemuGARepeatThaw
  | CollaboratorError string

definition text_type :: "exc \<Rightarrow> string" where
  "text_type err =
     (case err of
        CollaboratorError msg \<Rightarrow> msg
      | DriverNotInitialized msg \<Rightarrow> msg
      | BackupFailedToGetVolumeBackend msg \<Rightarrow> msg
      | _ \<Rightarrow> [])"

section \<open>Records of the store\<close>

record attachment =
  a_id :: string
  a_attached_host :: "string option"
  a_instance_uuid :: "string option"

record volume =
  v_id :: string
  v_status :: "string option"
  v_size :: int
  v_host :: string
  v_availability_zone :: string
  v_display_description :: "string option"
  v_volume_attachment :: "attachment list"
  v_volume_type :: "string option"

record backup =
  b_id :: string
  b_volume_id :: string
  b_status :: string
  b_size :: "int option"
  b_container :: "string option"
  b_parent_id :: "string option"
  b_host :: "string option"
  b_service :: "string option"
  b_display_name :: "string option"
  b_display_description :: "string option"
  b_fail_reason :: "string option"
  b_availability_zone :: "string option"
  b_user_id :: string
  b_project_id :: string
  b_created_at :: int

record service =
  srv_host :: string
  srv_availability_zone :: string
  srv_disabled :: bool
  srv_is_up :: bool

text \<open>
  The message bus: every dispatch of \<^verbatim>\<open>rpcapi.py\<close> appends one message, sent either
  with \<^verbatim>\<open>cast\<close> (fire and forget) or with \<^verbatim>\<open>call\<close> (request and response).
\<close>

datatype rpc_mode = Cast | Call

record rpc_msg =
  m_mode :: rpc_mode
  m_server :: "string option"
  m_method :: string
  m_args :: "string dict"
  m_hosts :: "string list"

datatype quota_event = QCommit "string list" | QRollback "string list"

text \<open>
  The state the orchestration code reads and writes: the two record tables, the
  service registry, what has been committed or rolled back on the quota ledger, the
  messages put on the bus, the calls made to the backup driver, and the calls made to
  the compute API for the guest file system.
\<close>

record state =
  volumes :: "volume list"
  backups :: "backup list"
  services :: "service list"
  quota_log :: "quota_event list"
  bus :: "rpc_msg list"
  driver_log :: "string list"
  compute_log :: "string list"

section \<open>The record store\<close>

text \<open>
  Modelled from the spec: the BackupRepository and VolumeRepository of section 2
  ("CRUD + filtered-list over Backup and Volume records"), which the source reaches
  through \<^verbatim>\<open>self.db\<close> and \<^verbatim>\<open>self.volume_api\<close>. A read of a missing id raises; an update
  rewrites the fields of the record with that id and is only ever issued for an id
  that was read from the same store; a destroy removes the record from what later
  reads see.
\<close>

definition volume_get :: "state \<Rightarrow> string \<Rightarrow> exc + volume" where
  "volume_get s vid =
     (case find (\<lambda>v. v_id v = vid) (volumes s) of
        None \<Rightarrow> Inl VolumeNotFound | Some v \<Rightarrow> Inr v)"

definition backup_get :: "state \<Rightarrow> string \<Rightarrow> exc + backup" where
  "backup_get s bid =
     (case find (\<lambda>b. b_id b = bid) (backups s) of
        None \<Rightarrow> Inl BackupNotFound | Some b \<Rightarrow> Inr b)"

definition volume_update :: "string \<Rightarrow> (volume \<Rightarrow> volume) \<Rightarrow> state \<Rightarrow> state" where
  "volume_update vid f s =
     s\<lparr>volumes := map (\<lambda>v. if v_id v = vid then f v else v) (volumes s)\<rparr>"

definition backup_update :: "string \<Rightarrow> (backup \<Rightarrow> backup) \<Rightarrow> state \<Rightarrow> state" where
  "backup_update bid f s =
     s\<lparr>backups := map (\<lambda>b. if b_id b = bid then f b else b) (backups s)\<rparr>"

definition backup_destroy :: "string \<Rightarrow> state \<Rightarrow> state" where
  "backup_destroy bid s = s\<lparr>backups := filter (\<lambda>b. b_id b \<noteq> bid) (backups s)\<rparr>"

definition backup_get_all_by_volume :: "state \<Rightarrow> string \<Rightarrow> backup list" where
  "backup_get_all_by_volume s vid = filter (\<lambda>b. b_volume_id b = vid) (backups s)"



section \<open>The orchestrator: \<^verbatim>\<open>API\<close> of \<^verbatim>\<open>cinder/backup/api.py\<close>\<close>

text \<open>
  The request context, with the \<open>periodic\<close> attribute that
  \<^verbatim>\<open>getattr(context, 'periodic', False)\<close> reads.
\<close>

record ctx =
  c_user_id :: string
  c_project_id :: string
  c_is_admin :: bool
  c_periodic :: bool

text \<open>
  What \<^verbatim>\<open>QUOTAS.reserve\<close> does for one call: it returns the reservations, or raises
  \<^verbatim>\<open>OverQuota\<close> with the overrun resource names, the usage table (resource name to a
  dictionary with \<^verbatim>\<open>reserved\<close> and \<^verbatim>\<open>in_use\<close>) and the limit table.
\<close>

datatype reserve_result =
    Reserved "string list"
  | OverQuota "string list" "int dict dict" "int dict"

text \<open>
  The collaborators of the orchestrator that are not part of \<^verbatim>\<open>cinder/backup\<close> are
  parameters: the policy check, \<^verbatim>\<open>volume_utils.extract_host\<close>, the quota engine, the
  failures of the record store on insert and destroy, the identifier and creation
  time the store gives to a new row, the status the compute API reports for a server,
  \<^verbatim>\<open>volume_api.create\<close>, what the volume service does to the store during each
  one-second sleep of the wait for a new volume, and the reply of the remote host to
  a \<^verbatim>\<open>call\<close>.
\<close>

record api_env =
  policy_enforce :: "string \<Rightarrow> bool"
  extract_host :: "string \<Rightarrow> string \<Rightarrow> string"
  quota_reserve :: reserve_result
  quota_commit :: "exc option"
  quota_rollback :: "exc option"
  db_backup_create :: "exc + string \<times> int"
  db_backup_destroy :: "exc option"
  nova_get_server :: "string option \<Rightarrow> exc + string"
  volume_api_create :: "int \<Rightarrow> string \<Rightarrow> string \<Rightarrow> state \<Rightarrow> exc + volume \<times> state"
  volume_service_step :: "nat \<Rightarrow> state \<Rightarrow> state"
  rpc_call_reply :: "rpc_msg \<Rightarrow> exc + string dict"

definition check_policy :: "api_env \<Rightarrow> string \<Rightarrow> exc option" where
  "check_policy env action =
     (if policy_enforce env (''backup:'' @ action) then None else Some PolicyNotAuthorized)"

definition is_backup_service_enabled :: "state \<Rightarrow> volume \<Rightarrow> string \<Rightarrow> bool" where
  "is_backup_service_enabled s volume volume_host =
     list_ex (\<lambda>srv. srv_availability_zone srv = v_availability_zone volume \<and>
                    srv_host srv = volume_host \<and> srv_is_up srv)
             (filter (\<lambda>srv. \<not> srv_disabled srv) (services s))"

definition list_backup_services :: "state \<Rightarrow> string list" where
  "list_backup_services s = map srv_host (filter (\<lambda>srv. \<not> srv_disabled srv) (services s))"

subsection \<open>The quota handler of \<^verbatim>\<open>create\<close> (lines 152 to 187)\<close>

definition dict_get :: "'v dict \<Rightarrow> string \<Rightarrow> exc + 'v" where
  "dict_get d k = (case map_of d k of None \<Rightarrow> Inl (KeyError k) | Some v \<Rightarrow> Inr v)"

text \<open>\<^verbatim>\<open>_consumed(resource_name)\<close>: reserved plus in use, each lookup raising on a missing key.\<close>

definition consumed :: "int dict dict \<Rightarrow> string \<Rightarrow> exc + int" where
  "consumed usages resource_name =
     (case dict_get usages resource_name of
        Inl e \<Rightarrow> Inl e
      | Inr u \<Rightarrow>
          (case dict_get u ''reserved'' of
             Inl e \<Rightarrow> Inl e
           | Inr r \<Rightarrow>
               (case dict_get usages resource_name of
                  Inl e \<Rightarrow> Inl e
                | Inr u' \<Rightarrow>
                    (case dict_get u' ''in_use'' of
                       Inl e \<Rightarrow> Inl e
                     | Inr i \<Rightarrow> Inr (r + i)))))"

text \<open>
  The loop \<^verbatim>\<open>for over in overs\<close>. \<open>Some e\<close>: the loop raised \<open>e\<close>; \<open>None\<close>: the loop ran
  to its end without raising. The arguments of the log call are evaluated before the
  \<^verbatim>\<open>raise\<close>, so their lookups come first.
\<close>

fun over_quota_loop :: "int \<Rightarrow> int dict dict \<Rightarrow> int dict \<Rightarrow> string list \<Rightarrow> exc option" where
  "over_quota_loop vsize usages quotas [] = None"
| "over_quota_loop vsize usages quotas (over # overs) =
     (if str_in ''gigabytes'' over then
        (case consumed usages over of
           Inl e \<Rightarrow> Some e
         | Inr _ \<Rightarrow>
             (case dict_get quotas over of
                Inl e \<Rightarrow> Some e
              | Inr _ \<Rightarrow>
                  (case consumed usages ''backup_gigabytes'' of
                     Inl e \<Rightarrow> Some e
                   | Inr c \<Rightarrow>
                       (case dict_get quotas ''backup_gigabytes'' of
                          Inl e \<Rightarrow> Some e
                        | Inr q \<Rightarrow> Some (VolumeBackupSizeExceedsAvailableQuota vsize c q)))))
      else if str_in ''backups'' over then
        (case consumed usages over of
           Inl e \<Rightarrow> Some e
         | Inr _ \<Rightarrow>
             (case dict_get quotas over of
                Inl e \<Rightarrow> Some e
              | Inr q \<Rightarrow> Some (BackupLimitExceeded q)))
      else over_quota_loop vsize usages quotas overs)"

text \<open>
  The \<^verbatim>\<open>try\<close> around \<^verbatim>\<open>QUOTAS.reserve\<close>. The result is the local variable
  \<^verbatim>\<open>reservations\<close>: \<open>Some r\<close> when the reservation succeeded, \<open>None\<close> when the
  handler ended without raising and the variable was never assigned.
\<close>

definition create_reserve :: "api_env \<Rightarrow> volume \<Rightarrow> exc + string list option" where
  "create_reserve env volume =
     (case quota_reserve env of
        Reserved r \<Rightarrow> Inr (Some r)
      | OverQuota overs usages quotas \<Rightarrow>
          (case over_quota_loop (v_size volume) usages quotas overs of
             Some e \<Rightarrow> Inl e
           | None \<Rightarrow> Inr None))"

subsection \<open>Choice of the parent backup (lines 189 to 239)\<close>

definition carries_periodic_tag :: "backup \<Rightarrow> bool" where
  "carries_periodic_tag bk =
     (\<not> (\<not> truthy (b_display_description bk) \<or>
         \<not> str_in PERIODICSTR (case b_display_description bk of None \<Rightarrow> [] | Some d \<Rightarrow> d)))"

definition normal_backups :: "backup list \<Rightarrow> backup list" where
  "normal_backups bks = filter (\<lambda>bk. \<not> carries_periodic_tag bk) bks"

text \<open>
  Python's \<^verbatim>\<open>max(xs, key=...)\<close> on a non-empty list: the first element whose key is
  maximal.
\<close>

fun py_max_by :: "('a \<Rightarrow> int) \<Rightarrow> 'a \<Rightarrow> 'a list \<Rightarrow> 'a" where
  "py_max_by key best [] = best"
| "py_max_by key best (x # xs) = py_max_by key (if key best < key x then x else best) xs"

definition find_latest_backup :: "bool \<Rightarrow> bool \<Rightarrow> backup list \<Rightarrow> backup option" where
  "find_latest_backup periodic incremental bks =
     (if periodic then None
      else if incremental then
        (if bks \<noteq> [] then
           (case normal_backups bks of
              [] \<Rightarrow> None
            | bk # rest \<Rightarrow> Some (py_max_by b_created_at bk rest))
         else None)
      else None)"

definition choose_parent :: "backup option \<Rightarrow> exc + string option" where
  "choose_parent latest_backup =
     (case latest_backup of
        Some lb \<Rightarrow>
          (if b_status lb = ''available'' then Inr (Some (b_id lb))
           else if b_status lb = ''creating'' then Inl InvalidBackup
           else Inr None)
      | None \<Rightarrow> Inr None)"

definition periodic_description :: "bool \<Rightarrow> string option \<Rightarrow> string option" where
  "periodic_description periodic description =
     (if periodic then
        (if truthy description then Some (PERIODICSTR @ the description) else Some PERIODICSTR)
      else description)"

subsection \<open>Insertion of the record and commit of the reservation (lines 261 to 269)\<close>

definition QUOTAS_commit :: "api_env \<Rightarrow> string list option \<Rightarrow> state \<Rightarrow> exc option \<times> state" where
  "QUOTAS_commit env reservations s =
     (case reservations of
        None \<Rightarrow> (Some (UnboundLocalError ''reservations''), s)
      | Some r \<Rightarrow>
          (case quota_commit env of
             Some e \<Rightarrow> (Some e, s)
           | None \<Rightarrow> (None, s\<lparr>quota_log := quota_log s @ [QCommit r]\<rparr>)))"

definition QUOTAS_rollback :: "api_env \<Rightarrow> string list option \<Rightarrow> state \<Rightarrow> exc option \<times> state" where
  "QUOTAS_rollback env reservations s =
     (case reservations of
        None \<Rightarrow> (Some (UnboundLocalError ''reservations''), s)
      | Some r \<Rightarrow>
          (case quota_rollback env of
             Some e \<Rightarrow> (Some e, s)
           | None \<Rightarrow> (None, s\<lparr>quota_log := quota_log s @ [QRollback r]\<rparr>)))"

text \<open>
  The body of the handler, \<^verbatim>\<open>try: backup_destroy(backup['id']) finally: rollback\<close>.
  \<open>bk\<close> is the local variable \<^verbatim>\<open>backup\<close>, \<open>None\<close> when it was never assigned. The
  result is the exception that leaves the body, if any: one raised by the
  \<^verbatim>\<open>finally\<close> clause replaces one raised by the \<^verbatim>\<open>try\<close> clause.
\<close>

definition destroy_and_rollback ::
  "api_env \<Rightarrow> backup option \<Rightarrow> string list option \<Rightarrow> state \<Rightarrow> exc option \<times> state" where
  "destroy_and_rollback env bk reservations s =
     (let (destroyed, s1) =
            (case bk of
               None \<Rightarrow> (Some (UnboundLocalError ''backup''), s)
             | Some b \<Rightarrow>
                 (case db_backup_destroy env of
                    Some e \<Rightarrow> (Some e, s)
                  | None \<Rightarrow> (None, backup_destroy (b_id b) s)));
          (rolled, s2) = QUOTAS_rollback env reservations s1
      in (case rolled of Some e \<Rightarrow> (Some e, s2) | None \<Rightarrow> (destroyed, s2)))"

text \<open>
  \<^verbatim>\<open>with excutils.save_and_reraise_exception()\<close>: when the body raises, that
  exception propagates and the saved one is dropped; when the body ends normally the
  saved exception is raised again.
\<close>

definition save_and_reraise_exception :: "exc \<Rightarrow> exc option \<times> state \<Rightarrow> exc \<times> state" where
  "save_and_reraise_exception saved body =
     (case body of (Some e, s) \<Rightarrow> (e, s) | (None, s) \<Rightarrow> (saved, s))"

definition create_insert ::
  "api_env \<Rightarrow> backup \<Rightarrow> string list option \<Rightarrow> state \<Rightarrow> (exc + backup) \<times> state" where
  "create_insert env options reservations s =
     (case db_backup_create env of
        Inl e \<Rightarrow>
          (let (e', s') = save_and_reraise_exception e
                            (destroy_and_rollback env None reservations s)
           in (Inl e', s'))
      | Inr (bid, t) \<Rightarrow>
          (let bk = options\<lparr>b_id := bid, b_created_at := t\<rparr>;
               s1 = s\<lparr>backups := backups s @ [bk]\<rparr>
           in (case QUOTAS_commit env reservations s1 of
                 (Some e, s2) \<Rightarrow>
                   (let (e', s') = save_and_reraise_exception e
                                     (destroy_and_rollback env (Some bk) reservations s2)
                    in (Inl e', s'))
               | (None, s2) \<Rightarrow> (Inr bk, s2))))"

subsection \<open>\<^verbatim>\<open>API.create\<close>\<close>

text \<open>
  The checks of lines 141 to 187: policy, the volume and its status, the backup
  service, the quota reservation. They change no state.
\<close>

definition create_precheck ::
  "api_env \<Rightarrow> string \<Rightarrow> state \<Rightarrow> exc + volume \<times> string \<times> string list option" where
  "create_precheck env volume_id s =
     (case check_policy env ''create'' of
        Some e \<Rightarrow> Inl e
      | None \<Rightarrow>
          (case volume_get s volume_id of
             Inl e \<Rightarrow> Inl e
           | Inr volume \<Rightarrow>
               (if v_status volume \<noteq> Some ''available'' then Inl InvalidVolume
                else
                  (let volume_host = extract_host env (v_host volume) ''host'' in
                   if \<not> is_backup_service_enabled s volume volume_host
                   then Inl ServiceNotFound
                   else
                     (case create_reserve env volume of
                        Inl e \<Rightarrow> Inl e
                      | Inr reservations \<Rightarrow> Inr (volume, volume_host, reservations))))))"

definition rpc_create_backup :: "string option \<Rightarrow> string \<Rightarrow> string \<Rightarrow> state \<Rightarrow> state" where
  "rpc_create_backup host backup_id volume_id s =
     s\<lparr>bus := bus s @ [\<lparr>m_mode = Cast, m_server = host, m_method = ''create_backup'',
                         m_args = [(''backup_id'', backup_id)], m_hosts = []\<rparr>]\<rparr>"

definition create_options ::
  "ctx \<Rightarrow> string option \<Rightarrow> string option \<Rightarrow> string \<Rightarrow> string option \<Rightarrow> string option \<Rightarrow>
   string \<Rightarrow> backup" where
  "create_options context name description volume_id container parent_id volume_host =
     \<lparr>b_id = [], b_volume_id = volume_id, b_status = ''creating'', b_size = Some 0,
      b_container = container, b_parent_id = parent_id, b_host = Some volume_host,
      b_service = None, b_display_name = name, b_display_description = description,
      b_fail_reason = None, b_availability_zone = None,
      b_user_id = c_user_id context, b_project_id = c_project_id context,
      b_created_at = 0\<rparr>"

text \<open>
  Lines 241 to 279, once the parent is chosen: the volume is set to \<^verbatim>\<open>backing-up\<close>,
  the record is inserted and the reservation committed, and the work is cast to the
  host of the volume.
\<close>

definition create_record ::
  "api_env \<Rightarrow> ctx \<Rightarrow> string option \<Rightarrow> string option \<Rightarrow> string \<Rightarrow> string option \<Rightarrow>
   string option \<Rightarrow> string \<Rightarrow> string list option \<Rightarrow> state \<Rightarrow> (exc + backup) \<times> state" where
  "create_record env context name description volume_id container parent_id volume_host
     reservations s =
     (let s1 = volume_update volume_id (\<lambda>v. v\<lparr>v_status := Some ''backing-up''\<rparr>) s;
          options = create_options context name description volume_id
                      container parent_id volume_host
      in (case create_insert env options reservations s1 of
            (Inl e, s2) \<Rightarrow> (Inl e, s2)
          | (Inr bk, s2) \<Rightarrow>
              (Inr bk, rpc_create_backup (b_host bk) (b_id bk) volume_id s2)))"

definition create ::
  "api_env \<Rightarrow> ctx \<Rightarrow> string option \<Rightarrow> string option \<Rightarrow> string \<Rightarrow> string option \<Rightarrow> bool \<Rightarrow>
   state \<Rightarrow> (exc + backup) \<times> state" where
  "create env context name description volume_id container incremental s =
     (case create_precheck env volume_id s of
        Inl e \<Rightarrow> (Inl e, s)
      | Inr (volume, volume_host, reservations) \<Rightarrow>
          (let latest_backup =
                 find_latest_backup (c_periodic context) incremental
                   (backup_get_all_by_volume s volume_id);
               description' = periodic_description (c_periodic context) description
           in (case choose_parent latest_backup of
                 Inl e \<Rightarrow> (Inl e, s)
               | Inr parent_id \<Rightarrow>
                   create_record env context name description' volume_id container
                     parent_id volume_host reservations s)))"

subsection \<open>The client side of the message bus, \<^verbatim>\<open>cinder/backup/rpcapi.py\<close>\<close>

definition rpc_restore_backup :: "string \<Rightarrow> string \<Rightarrow> string \<Rightarrow> state \<Rightarrow> state" where
  "rpc_restore_backup host backup_id volume_id s =
     s\<lparr>bus := bus s @ [\<lparr>m_mode = Cast, m_server = Some host, m_method = ''restore_backup'',
                         m_args = [(''backup_id'', backup_id), (''volume_id'', volume_id)],
                         m_hosts = []\<rparr>]\<rparr>"

definition rpc_delete_backup :: "string option \<Rightarrow> string \<Rightarrow> state \<Rightarrow> state" where
  "rpc_delete_backup host backup_id s =
     s\<lparr>bus := bus s @ [\<lparr>m_mode = Cast, m_server = host, m_method = ''delete_backup'',
                         m_args = [(''backup_id'', backup_id)], m_hosts = []\<rparr>]\<rparr>"

text \<open>
  \<^verbatim>\<open>export_record\<close> returns what \<^verbatim>\<open>cctxt.call\<close> returns: the reply of the remote host,
  or the exception it raised.
\<close>

definition rpc_export_record ::
  "api_env \<Rightarrow> string option \<Rightarrow> string \<Rightarrow> state \<Rightarrow> (exc + string dict) \<times> state" where
  "rpc_export_record env host backup_id s =
     (let msg = \<lparr>m_mode = Call, m_server = host, m_method = ''export_record'',
                  m_args = [(''backup_id'', backup_id)], m_hosts = []\<rparr>
      in (rpc_call_reply env msg, s\<lparr>bus := bus s @ [msg]\<rparr>))"

definition rpc_import_record ::
  "string \<Rightarrow> string \<Rightarrow> string \<Rightarrow> string \<Rightarrow> string list \<Rightarrow> state \<Rightarrow> state" where
  "rpc_import_record host backup_id backup_service backup_url backup_hosts s =
     s\<lparr>bus := bus s @ [\<lparr>m_mode = Cast, m_server = Some host, m_method = ''import_record'',
                         m_args = [(''backup_id'', backup_id),
                                   (''backup_service'', backup_service),
                                   (''backup_url'', backup_url)],
                         m_hosts = backup_hosts\<rparr>]\<rparr>"

subsection \<open>\<^verbatim>\<open>API.get\<close>, \<^verbatim>\<open>API.export_record\<close> and \<^verbatim>\<open>API.import_record\<close>\<close>

definition api_get :: "api_env \<Rightarrow> state \<Rightarrow> string \<Rightarrow> exc + backup" where
  "api_get env s backup_id =
     (case check_policy env ''get'' of
        Some e \<Rightarrow> Inl e
      | None \<Rightarrow> backup_get s backup_id)"

definition export_record ::
  "api_env \<Rightarrow> string \<Rightarrow> state \<Rightarrow> (exc + string dict) \<times> state" where
  "export_record env backup_id s =
     (case check_policy env ''backup-export'' of
        Some e \<Rightarrow> (Inl e, s)
      | None \<Rightarrow>
          (case api_get env s backup_id of
             Inl e \<Rightarrow> (Inl e, s)
           | Inr backup \<Rightarrow>
               (if b_status backup \<noteq> ''available'' then (Inl InvalidBackup, s)
                else rpc_export_record env (b_host backup) (b_id backup) s)))"

definition import_options :: "ctx \<Rightarrow> backup" where
  "import_options context =
     \<lparr>b_id = [], b_volume_id = ''0000-0000-0000-0000'', b_status = ''creating'',
      b_size = None, b_container = None, b_parent_id = None, b_host = None,
      b_service = None, b_display_name = None, b_display_description = None,
      b_fail_reason = None, b_availability_zone = None,
      b_user_id = c_user_id context, b_project_id = c_project_id context,
      b_created_at = 0\<rparr>"

text \<open>
  \<^verbatim>\<open>hosts.pop()\<close> takes the last host of the list; the remaining hosts travel with the
  message.
\<close>

definition import_record ::
  "api_env \<Rightarrow> ctx \<Rightarrow> string \<Rightarrow> string \<Rightarrow> state \<Rightarrow> (exc + backup) \<times> state" where
  "import_record env context backup_service backup_url s =
     (case check_policy env ''backup-import'' of
        Some e \<Rightarrow> (Inl e, s)
      | None \<Rightarrow>
          (let hosts = list_backup_services s in
           if length hosts = 0 then (Inl ServiceNotFound, s)
           else
             (case db_backup_create env of
                Inl e \<Rightarrow> (Inl e, s)
              | Inr (bid, t) \<Rightarrow>
                  (let backup = (import_options context)\<lparr>b_id := bid, b_created_at := t\<rparr>;
                       s1 = s\<lparr>backups := backups s @ [backup]\<rparr>;
                       first_host = last hosts;
                       hosts' = butlast hosts
                   in (Inr backup,
                       rpc_import_record first_host (b_id backup) backup_service backup_url
                         hosts' s1)))))"

subsection \<open>\<^verbatim>\<open>API.restore\<close>\<close>

text \<open>
  The wait for a volume created for the restore,
  \<^verbatim>\<open>while True: volume = get(volume_id); if status != 'creating': break; sleep(1)\<close>.
  The loop has no bound; \<open>None\<close> is the run that never leaves it.
\<close>

partial_function (option) restore_wait ::
  "api_env \<Rightarrow> string \<Rightarrow> nat \<Rightarrow> state \<Rightarrow> ((exc + volume) \<times> state) option" where
  "restore_wait env volume_id n s =
     (case volume_get s volume_id of
        Inl e \<Rightarrow> Some (Inl e, s)
      | Inr volume \<Rightarrow>
          (if v_status volume \<noteq> Some ''creating'' then Some (Inr volume, s)
           else restore_wait env volume_id (Suc n) (volume_service_step env n s)))"

text \<open>
  Lines 294 to 313: the target volume, created when none is given. The result is the
  volume as read and its id.
\<close>

definition restore_target ::
  "api_env \<Rightarrow> string \<Rightarrow> int \<Rightarrow> string option \<Rightarrow> state \<Rightarrow>
   ((exc + volume \<times> string) \<times> state) option" where
  "restore_target env backup_id size' volume_id s =
     (case volume_id of
        None \<Rightarrow>
          (case volume_api_create env size' (''restore_backup_'' @ backup_id)
                  ''auto-created_from_restore_from_backup'' s of
             Inl e \<Rightarrow> Some (Inl e, s)
           | Inr (volume, s1) \<Rightarrow>
               (case restore_wait env (v_id volume) 0 s1 of
                  None \<Rightarrow> None
                | Some (Inl e, s2) \<Rightarrow> Some (Inl e, s2)
                | Some (Inr volume', s2) \<Rightarrow> Some (Inr (volume', v_id volume), s2)))
      | Some vid \<Rightarrow>
          (case volume_get s vid of
             Inl e \<Rightarrow> Some (Inl e, s)
           | Inr volume \<Rightarrow> Some (Inr (volume, vid), s)))"

text \<open>The loop over the attachments of an in-use volume (lines 321 to 328).\<close>

fun check_attached_servers :: "api_env \<Rightarrow> attachment list \<Rightarrow> exc option" where
  "check_attached_servers env [] = None"
| "check_attached_servers env (attachment # rest) =
     (case nova_get_server env (a_instance_uuid attachment) of
        Inl e \<Rightarrow> Some e
      | Inr status \<Rightarrow>
          (if status \<noteq> ''SHUTOFF'' then Some InvalidVolume
           else check_attached_servers env rest))"

definition check_restore_volume :: "api_env \<Rightarrow> volume \<Rightarrow> exc option" where
  "check_restore_volume env volume =
     (if v_status volume \<noteq> Some ''available'' \<and> v_status volume \<noteq> Some ''in-use''
      then Some InvalidVolume
      else if v_status volume = Some ''in-use''
      then check_attached_servers env (v_volume_attachment volume)
      else None)"

text \<open>
  Lines 315 to 363, in the order of the source: the status checks, the write of the
  volume status into \<^verbatim>\<open>display_description\<close>, the size check, the two status updates
  and the cast.
\<close>

definition restore_checked ::
  "api_env \<Rightarrow> backup \<Rightarrow> string \<Rightarrow> int \<Rightarrow> volume \<Rightarrow> string \<Rightarrow> state \<Rightarrow>
   (exc + string \<times> string) \<times> state" where
  "restore_checked env backup backup_id size' volume volume_id s =
     (case check_restore_volume env volume of
        Some e \<Rightarrow> (Inl e, s)
      | None \<Rightarrow>
          (let s1 = volume_update volume_id
                      (\<lambda>v. v\<lparr>v_display_description := v_status volume\<rparr>) s
           in if size' > v_size volume * 1024 then (Inl InvalidVolume, s1)
              else
                (let s2 = backup_update backup_id (\<lambda>b. b\<lparr>b_status := ''restoring''\<rparr>) s1;
                     s3 = volume_update volume_id
                            (\<lambda>v. v\<lparr>v_status := Some ''restoring-backup''\<rparr>) s2;
                     volume_host = extract_host env (v_host volume) ''host''
                 in (Inr (backup_id, volume_id),
                     rpc_restore_backup volume_host (b_id backup) volume_id s3))))"

definition restore ::
  "api_env \<Rightarrow> string \<Rightarrow> string option \<Rightarrow> state \<Rightarrow>
   ((exc + string \<times> string) \<times> state) option" where
  "restore env backup_id volume_id s =
     (case check_policy env ''restore'' of
        Some e \<Rightarrow> Some (Inl e, s)
      | None \<Rightarrow>
          (case api_get env s backup_id of
             Inl e \<Rightarrow> Some (Inl e, s)
           | Inr backup \<Rightarrow>
               (if b_status backup \<noteq> ''available'' then Some (Inl InvalidBackup, s)
                else
                  (case b_size backup of
                     None \<Rightarrow> Some (Inl InvalidBackup, s)
                   | Some size' \<Rightarrow>
                       (case restore_target env backup_id size' volume_id s of
                          None \<Rightarrow> None
                        | Some (Inl e, s1) \<Rightarrow> Some (Inl e, s1)
                        | Some (Inr (volume, volume_id'), s1) \<Rightarrow>
                            Some (restore_checked env backup backup_id size' volume
                                    volume_id' s1))))))"

section \<open>The executor: \<^verbatim>\<open>BackupManager\<close> of \<^verbatim>\<open>cinder/backup/manager.py\<close>\<close>

text \<open>
  The collaborators of the manager are parameters: its own host name, the configured
  backup driver and availability zone, the keys of \<^verbatim>\<open>self.volume_managers\<close> in the
  order of the dictionary, \<^verbatim>\<open>volume_utils.extract_host\<close>, whether the volume driver of
  a backend is initialized (\<open>Some msg\<close>: \<^verbatim>\<open>require_driver_initialized\<close> raises with that
  message), what the driver does on backup (it raises with a message, or returns the
  size and container it reports), on restore and on delete, what
  \<^verbatim>\<open>detach_volume\<close> of the volume manager does to the record of the volume, the quota
  engine, the compute API, and what the worker threads and other writers do to the
  store between two polls of the instance backup.
\<close>

record mgr_env =
  mgr_host :: string
  mgr_backup_driver :: string
  mgr_az :: string
  mgr_volume_managers :: "string list"
  mgr_extract_host :: "string \<Rightarrow> string \<Rightarrow> string"
  mgr_driver_initialized :: "string \<Rightarrow> string option"
  mgr_backup_volume :: "backup \<Rightarrow> string + int option \<times> string option"
  mgr_restore_backup :: "backup \<Rightarrow> volume \<Rightarrow> string option"
  mgr_driver_delete :: "backup \<Rightarrow> string option"
  mgr_detach_volume :: "string \<Rightarrow> string \<Rightarrow> volume \<Rightarrow> exc + volume"
  mgr_quota_reserve :: "exc + string list"
  mgr_quota_commit :: "exc option"
  mgr_get_vm_state :: "string \<Rightarrow> exc + string"
  mgr_exec_cmd :: "exc option"
  mgr_thaw_filesystem :: "nat \<Rightarrow> exc option"
  mgr_workers :: "nat \<Rightarrow> state \<Rightarrow> state"

definition mapper :: "string dict" where
  "mapper = [(''cinder.backup.services.swift'', ''cinder.backup.drivers.swift''),
             (''cinder.backup.services.ceph'', ''cinder.backup.drivers.ceph'')]"

definition map_service_to_driver :: "string option \<Rightarrow> string option" where
  "map_service_to_driver service =
     (case service of
        None \<Rightarrow> None
      | Some sv \<Rightarrow> (case map_of mapper sv of Some d \<Rightarrow> Some d | None \<Rightarrow> Some sv))"

definition driver_name :: "mgr_env \<Rightarrow> string" where
  "driver_name env =
     (case map_of mapper (mgr_backup_driver env) of
        Some d \<Rightarrow> d
      | None \<Rightarrow> mgr_backup_driver env)"

text \<open>\<^verbatim>\<open>host.partition('@')\<close>: the text before the first \<^verbatim>\<open>@\<close>, the separator, the rest.\<close>

definition partition_at :: "string \<Rightarrow> string \<times> string \<times> string" where
  "partition_at h =
     (case dropWhile (\<lambda>c. c \<noteq> CHR ''@'') h of
        [] \<Rightarrow> (h, [], [])
      | _ # after \<Rightarrow> (takeWhile (\<lambda>c. c \<noteq> CHR ''@'') h, ''@'', after))"

definition default_volume_backend :: "mgr_env \<Rightarrow> exc + string" where
  "default_volume_backend env =
     (if ''default'' \<notin> set (mgr_volume_managers env) then
        (case mgr_volume_managers env of [] \<Rightarrow> Inl IndexError | k # _ \<Rightarrow> Inr k)
      else Inr ''default'')"

definition get_volume_backend :: "mgr_env \<Rightarrow> string option \<Rightarrow> bool \<Rightarrow> exc + string" where
  "get_volume_backend env host allow_null_host =
     (case host of
        None \<Rightarrow>
          (if \<not> allow_null_host
           then Inl (BackupFailedToGetVolumeBackend
                       ''NULL host not allowed for volume backend lookup.'')
           else default_volume_backend env)
      | Some h \<Rightarrow>
          (case partition_at h of
             (_, sep, after) \<Rightarrow>
               (if sep = ''@'' \<and> after \<noteq> [] then Inr after
                else default_volume_backend env)))"

definition get_manager :: "mgr_env \<Rightarrow> string option \<Rightarrow> exc + string" where
  "get_manager env backend =
     (case (case backend of
              None \<Rightarrow> get_volume_backend env None True
            | Some b \<Rightarrow> Inr b) of
        Inl e \<Rightarrow> Inl e
      | Inr b \<Rightarrow>
          (if b \<notin> set (mgr_volume_managers env)
           then Inl (BackupFailedToGetVolumeBackend
                       (''Volume manager for backend '' @ [CHR 0x27] @ b @ [CHR 0x27] @
                        '' does not exist.''))
           else Inr b))"

definition get_driver :: "mgr_env \<Rightarrow> string option \<Rightarrow> exc + string" where
  "get_driver env backend =
     (case (case backend of
              None \<Rightarrow> get_volume_backend env None True
            | Some b \<Rightarrow> Inr b) of
        Inl e \<Rightarrow> Inl e
      | Inr b \<Rightarrow> get_manager env (Some b))"

definition require_driver_initialized :: "mgr_env \<Rightarrow> string \<Rightarrow> exc option" where
  "require_driver_initialized env driver =
     (case mgr_driver_initialized env driver of
        Some msg \<Rightarrow> Some (DriverNotInitialized msg)
      | None \<Rightarrow> None)"

text \<open>\<^verbatim>\<open>'%s' % status\<close> for a nullable status.\<close>

definition py_str :: "string option \<Rightarrow> string" where
  "py_str v = (case v of None \<Rightarrow> ''None'' | Some x \<Rightarrow> x)"

definition aborted_reason :: "string \<Rightarrow> string \<Rightarrow> string \<Rightarrow> string" where
  "aborted_reason what expected_status actual_status =
     what @ expected_status @ '' but got '' @ actual_status @ ''.''"

subsection \<open>\<^verbatim>\<open>create_backup\<close>\<close>

text \<open>
  The \<^verbatim>\<open>try\<close> body of lines 307 to 322: the driver of the backend, its
  initialization, the backup itself. A call that reaches the driver is recorded.
\<close>

definition run_backup_driver ::
  "mgr_env \<Rightarrow> string \<Rightarrow> backup \<Rightarrow> state \<Rightarrow> (exc + int option \<times> string option) \<times> state" where
  "run_backup_driver env backend bakup s =
     (case get_driver env (Some backend) of
        Inl e \<Rightarrow> (Inl e, s)
      | Inr driver \<Rightarrow>
          (case require_driver_initialized env driver of
             Some e \<Rightarrow> (Inl e, s)
           | None \<Rightarrow>
               (let s1 = s\<lparr>driver_log := driver_log s @ [''backup_volume '' @ b_id bakup]\<rparr>
                in (case mgr_backup_volume env bakup of
                      Inl msg \<Rightarrow> (Inl (CollaboratorError msg), s1)
                    | Inr backup_result \<Rightarrow> (Inr backup_result, s1)))))"

definition create_backup :: "mgr_env \<Rightarrow> string \<Rightarrow> state \<Rightarrow> (exc + unit) \<times> state" where
  "create_backup env backup_id s =
     (case backup_get s backup_id of
        Inl e \<Rightarrow> (Inl e, s)
      | Inr bakup \<Rightarrow>
          (let volume_id = b_volume_id bakup in
           case volume_get s volume_id of
             Inl e \<Rightarrow> (Inl e, s)
           | Inr volume \<Rightarrow>
               (let volume_host = mgr_extract_host env (v_host volume) ''backend'' in
                case get_volume_backend env (Some volume_host) False of
                  Inl e \<Rightarrow> (Inl e, s)
                | Inr backend \<Rightarrow>
                    (let s1 = backup_update backup_id
                                (\<lambda>b. b\<lparr>b_host := Some (mgr_host env),
                                       b_service := Some (driver_name env)\<rparr>) s
                     in if v_status volume \<noteq> Some ''backing-up'' then
                          (Inl InvalidVolume,
                           backup_update backup_id
                             (\<lambda>b. b\<lparr>b_status := ''error'',
                                    b_fail_reason := Some (aborted_reason
                                      ''Create backup aborted, expected volume status ''
                                      ''backing-up'' (py_str (v_status volume)))\<rparr>) s1)
                        else if b_status bakup \<noteq> ''creating'' then
                          (Inl InvalidBackup,
                           backup_update backup_id
                             (\<lambda>b. b\<lparr>b_status := ''error'',
                                    b_fail_reason := Some (aborted_reason
                                      ''Create backup aborted, expected backup status ''
                                      ''creating'' (b_status bakup))\<rparr>)
                             (volume_update volume_id
                                (\<lambda>v. v\<lparr>v_status := Some ''available''\<rparr>) s1))
                        else
                          (case run_backup_driver env backend bakup s1 of
                             (Inl err, s2) \<Rightarrow>
                               (Inl err,
                                backup_update backup_id
                                  (\<lambda>b. b\<lparr>b_status := ''error'',
                                         b_fail_reason := Some (text_type err)\<rparr>)
                                  (volume_update volume_id
                                     (\<lambda>v. v\<lparr>v_status := Some ''available''\<rparr>) s2))
                           | (Inr (size', container), s2) \<Rightarrow>
                               (Inr (),
                                backup_update backup_id
                                  (\<lambda>b. b\<lparr>b_status := ''available'', b_size := size',
                                         b_availability_zone := Some (mgr_az env),
                                         b_container :=
                                           (case container of
                                              None \<Rightarrow> b_container bakup
                                            | Some c \<Rightarrow> Some c)\<rparr>)
                                  (volume_update volume_id
                                     (\<lambda>v. v\<lparr>v_status := Some ''available''\<rparr>) s2)))))))"

subsection \<open>\<^verbatim>\<open>restore_backup\<close>\<close>

definition run_restore_driver ::
  "mgr_env \<Rightarrow> string \<Rightarrow> backup \<Rightarrow> volume \<Rightarrow> state \<Rightarrow> exc option \<times> state" where
  "run_restore_driver env backend backup volume s =
     (case get_driver env (Some backend) of
        Inl e \<Rightarrow> (Some e, s)
      | Inr driver \<Rightarrow>
          (case require_driver_initialized env driver of
             Some e \<Rightarrow> (Some e, s)
           | None \<Rightarrow>
               (let s1 = s\<lparr>driver_log := driver_log s @ [''restore_backup '' @ b_id backup]\<rparr>
                in (case mgr_restore_backup env backup volume of
                      Some msg \<Rightarrow> (Some (CollaboratorError msg), s1)
                    | None \<Rightarrow> (None, s1)))))"

text \<open>
  One turn of the loop of lines 587 to 597: a description that ends with the marker
  loses its last six characters.
\<close>

definition strip_active_marker :: "state \<Rightarrow> backup \<Rightarrow> state" where
  "strip_active_marker s bak =
     (let description = b_display_description bak in
      if truthy description then
        (if py_last6 (the description) = MAGICSTR then
           backup_update (b_id bak)
             (\<lambda>b. b\<lparr>b_display_description := Some (py_drop_last6 (the description))\<rparr>) s
         else s)
      else s)"

text \<open>
  Lines 579 to 609. \<open>backup\<close> is the row returned by the status update of line 576,
  read before the loop; its description is the one the marker is appended to.
\<close>

definition mark_active :: "ctx \<Rightarrow> backup \<Rightarrow> string \<Rightarrow> string \<Rightarrow> state \<Rightarrow> state" where
  "mark_active context backup backup_id volume_id s =
     (let bks = (if c_is_admin context
                 then filter (\<lambda>b. b_volume_id b = volume_id) (backups s)
                 else filter (\<lambda>b. b_project_id b = c_project_id context \<and>
                                   b_volume_id b = volume_id) (backups s));
          s1 = foldl strip_active_marker s bks;
          description = b_display_description backup
      in if truthy description then
           backup_update backup_id
             (\<lambda>b. b\<lparr>b_display_description := Some (the description @ MAGICSTR)\<rparr>) s1
         else
           backup_update backup_id (\<lambda>b. b\<lparr>b_display_description := Some MAGICSTR\<rparr>) s1)"

definition restore_backup ::
  "mgr_env \<Rightarrow> ctx \<Rightarrow> string \<Rightarrow> string \<Rightarrow> state \<Rightarrow> (exc + unit) \<times> state" where
  "restore_backup env context backup_id volume_id s =
     (case backup_get s backup_id of
        Inl e \<Rightarrow> (Inl e, s)
      | Inr backup \<Rightarrow>
          (case volume_get s volume_id of
             Inl e \<Rightarrow> (Inl e, s)
           | Inr volume \<Rightarrow>
               (let volume_host = mgr_extract_host env (v_host volume) ''backend'' in
                case get_volume_backend env (Some volume_host) False of
                  Inl e \<Rightarrow> (Inl e, s)
                | Inr backend \<Rightarrow>
                    (let s1 = backup_update backup_id
                                (\<lambda>b. b\<lparr>b_host := Some (mgr_host env)\<rparr>) s
                     in if v_status volume \<noteq> Some ''restoring-backup'' then
                          (Inl InvalidVolume,
                           volume_update volume_id (\<lambda>v. v\<lparr>v_status := Some ''error''\<rparr>)
                             (backup_update backup_id
                                (\<lambda>b. b\<lparr>b_status := ''available''\<rparr>) s1))
                        else if b_status backup \<noteq> ''restoring'' then
                          (Inl InvalidBackup,
                           volume_update volume_id
                             (\<lambda>v. v\<lparr>v_status := Some ''error_restoring''\<rparr>)
                             (backup_update backup_id
                                (\<lambda>b. b\<lparr>b_status := ''error'',
                                       b_fail_reason := Some (aborted_reason
                                         ''Restore backup aborted: expected backup status ''
                                         ''restoring'' (b_status backup))\<rparr>) s1))
                        else if map_service_to_driver (b_service backup)
                                  \<noteq> Some (driver_name env) then
                          (Inl InvalidBackup,
                           volume_update volume_id
                             (\<lambda>v. v\<lparr>v_status := Some ''error_restoring''\<rparr>)
                             (backup_update backup_id
                                (\<lambda>b. b\<lparr>b_status := ''available''\<rparr>) s1))
                        else
                          (case run_restore_driver env backend backup volume s1 of
                             (Some err, s2) \<Rightarrow>
                               (Inl err,
                                backup_update backup_id
                                  (\<lambda>b. b\<lparr>b_status := ''available''\<rparr>)
                                  (volume_update volume_id
                                     (\<lambda>v. v\<lparr>v_status := Some ''error_restoring''\<rparr>) s2))
                           | (None, s2) \<Rightarrow>
                               (let s3 = volume_update volume_id
                                           (\<lambda>v. v\<lparr>v_status := v_display_description volume\<rparr>)
                                           s2;
                                    s4 = volume_update volume_id
                                           (\<lambda>v. v\<lparr>v_display_description := Some []\<rparr>) s3;
                                    s5 = backup_update backup_id
                                           (\<lambda>b. b\<lparr>b_status := ''available''\<rparr>) s4
                                in (case backup_get s5 backup_id of
                                      Inl e \<Rightarrow> (Inl e, s5)
                                    | Inr backup' \<Rightarrow>
                                        (Inr (),
                                         mark_active context backup' backup_id volume_id
                                           s5))))))))"

subsection \<open>\<^verbatim>\<open>delete_backup\<close>\<close>




subsection \<open>\<^verbatim>\<open>init_host\<close>: the sweep at start (lines 212 to 263)\<close>







subsection \<open>The start of the executor\<close>



subsection \<open>\<^verbatim>\<open>create_instance_backup\<close>\<close>

record inst_backup_kwarg =
  k_host :: "string option"
  k_backup_id :: string
  k_volume_id :: string

text \<open>\<^verbatim>\<open>[self.db.backup_get(context, kwargs['backup_id']) for kwargs in inst_backup_kwargs]\<close>\<close>

fun backup_get_list :: "state \<Rightarrow> inst_backup_kwarg list \<Rightarrow> exc + backup list" where
  "backup_get_list s [] = Inr []"
| "backup_get_list s (kwargs # rest) =
     (case backup_get s (k_backup_id kwargs) of
        Inl e \<Rightarrow> Inl e
      | Inr b \<Rightarrow>
          (case backup_get_list s rest of
             Inl e \<Rightarrow> Inl e
           | Inr bs \<Rightarrow> Inr (b # bs)))"

text \<open>
  \<^verbatim>\<open>_get_backups_by_volumetype\<close>: a volume without a volume type makes
  \<^verbatim>\<open>volume['volume_type']['name']\<close> raise.
\<close>

fun get_backups_by_volumetype :: "state \<Rightarrow> backup list \<Rightarrow> string \<Rightarrow> exc + backup list" where
  "get_backups_by_volumetype s [] volume_type_name = Inr []"
| "get_backups_by_volumetype s (backup # rest) volume_type_name =
     (case volume_get s (b_volume_id backup) of
        Inl e \<Rightarrow> Inl e
      | Inr volume \<Rightarrow>
          (case v_volume_type volume of
             None \<Rightarrow> Inl TypeError
           | Some name \<Rightarrow>
               (case get_backups_by_volumetype s rest volume_type_name of
                  Inl e \<Rightarrow> Inl e
                | Inr bs \<Rightarrow> Inr (if name = volume_type_name then backup # bs else bs))))"

text \<open>
  The loop of lines 1174 to 1186 over the backups of the Fujitsu type; the result is
  \<^verbatim>\<open>break_loop\<close>. A \<^verbatim>\<open>creating\<close> backup without description makes the test raise.
\<close>

fun clone_sessions_established :: "backup list \<Rightarrow> exc + bool" where
  "clone_sessions_established [] = Inr True"
| "clone_sessions_established (b # rest) =
     (if b_status b = ''creating'' then
        (case b_display_description b of
           None \<Rightarrow> Inl TypeError
         | Some d \<Rightarrow>
             (if \<not> str_in FUJITSU_CLONE_START d \<and> \<not> str_in FUJITSU_CLONE_END d then
                (case clone_sessions_established rest of
                   Inl e \<Rightarrow> Inl e
                 | Inr _ \<Rightarrow> Inr False)
              else clone_sessions_established rest))
      else clone_sessions_established rest)"

text \<open>
  What one turn of the wait loop decides: leave the loop, sleep five seconds, or go to
  the next turn at once (a status outside the three known ones). In the branch of an
  unfinished backup of the EBS type (lines 1153 to 1155) the message
  \<^verbatim>\<open>"... % (bak_status_list)s."\<close> is formatted with \<^verbatim>\<open>%\<close> before it is logged, and
  the blank after the percent sign makes the formatting raise \<open>ValueError\<close>; the
  sleep of that branch is never reached.
\<close>

datatype poll_result = Break | Sleep | Again

definition poll_step :: "state \<Rightarrow> inst_backup_kwarg list \<Rightarrow> exc + poll_result" where
  "poll_step s inst_backup_kwargs =
     (case backup_get_list s inst_backup_kwargs of
        Inl e \<Rightarrow> Inl e
      | Inr backup_list \<Rightarrow>
          (case get_backups_by_volumetype s backup_list FUJITSI_VOLUME_TYPE_NAME of
             Inl e \<Rightarrow> Inl e
           | Inr fujitsu_backup_list \<Rightarrow>
               (case get_backups_by_volumetype s backup_list EBS_VOLUME_TYPE_NAME of
                  Inl e \<Rightarrow> Inl e
                | Inr ebs_backup_list \<Rightarrow>
                    (let bak_status_list = map b_status backup_list in
                     if set bak_status_list \<subseteq> set [''available'', ''error''] then Inr Break
                     else if set bak_status_list
                               \<subseteq> set [''available'', ''error'', ''creating''] then
                       (if ''creating'' \<in> set (map b_status ebs_backup_list)
                        then Inl ValueError
                        else
                          (case clone_sessions_established fujitsu_backup_list of
                             Inl e \<Rightarrow> Inl e
                           | Inr break_loop \<Rightarrow> Inr (if break_loop then Break else Sleep)))
                     else Inr Again))))"

text \<open>
  \<^verbatim>\<open>for attempt in range(MOST_BACKUP_RETRIES)\<close>. \<open>n\<close> counts the turns left after the
  current one; the result is the value of \<^verbatim>\<open>attempt\<close> when the loop is left. The
  workers and the other writers of the store run between two turns.
\<close>

fun wait_for_backups ::
  "mgr_env \<Rightarrow> inst_backup_kwarg list \<Rightarrow> nat \<Rightarrow> nat \<Rightarrow> state \<Rightarrow> (exc + nat) \<times> state" where
  "wait_for_backups env ks 0 attempt s =
     (case poll_step s ks of
        Inl e \<Rightarrow> (Inl e, s)
      | Inr Break \<Rightarrow> (Inr attempt, s)
      | Inr _ \<Rightarrow> (Inr attempt, mgr_workers env attempt s))"
| "wait_for_backups env ks (Suc n) attempt s =
     (case poll_step s ks of
        Inl e \<Rightarrow> (Inl e, s)
      | Inr Break \<Rightarrow> (Inr attempt, s)
      | Inr _ \<Rightarrow> wait_for_backups env ks n (Suc attempt) (mgr_workers env attempt s))"

text \<open>Lines 1200 to 1204: every member of the group is set to \<^verbatim>\<open>error\<close>.\<close>

definition timeout_all :: "inst_backup_kwarg list \<Rightarrow> state \<Rightarrow> state" where
  "timeout_all ks s =
     foldl (\<lambda>st kwargs.
              backup_update (k_backup_id kwargs)
                (\<lambda>b. b\<lparr>b_status := ''error'',
                       b_fail_reason := Some ''backing up isn't finished in 3600s''\<rparr>) st)
           s ks"

text \<open>
  The freeze before the backups: the cache flush, then the freeze unless the flush
  raised. Every exception of either call is logged and dropped.
\<close>

definition freeze_instance :: "mgr_env \<Rightarrow> state \<Rightarrow> state" where
  "freeze_instance env s =
     (let s1 = s\<lparr>compute_log := compute_log s @ [''exec_cmd sync'']\<rparr>
      in (case mgr_exec_cmd env of
            Some _ \<Rightarrow> s1
          | None \<Rightarrow> s1\<lparr>compute_log := compute_log s1 @ [''freeze_filesystem'']\<rparr>))"

text \<open>The thaw after the wait: one retry after a timeout of the compute API.\<close>

definition thaw_instance :: "mgr_env \<Rightarrow> state \<Rightarrow> exc option \<times> state" where
  "thaw_instance env s =
     (let s1 = s\<lparr>compute_log := compute_log s @ [''thaw_filesystem'']\<rparr>
      in (case mgr_thaw_filesystem env 0 of
            None \<Rightarrow> (None, s1)
          | Some APITimeout \<Rightarrow>
              (mgr_thaw_filesystem env 1,
               s1\<lparr>compute_log := compute_log s1 @ [''thaw_filesystem'']\<rparr>)
          | Some ServerNotFound \<Rightarrow> (None, s1)
          | Some QemuGARepeatThaw \<Rightarrow> (None, s1)
          | Some e \<Rightarrow> (Some e, s1)))"

definition create_instance_backup ::
  "mgr_env \<Rightarrow> string \<Rightarrow> inst_backup_kwarg list \<Rightarrow> state \<Rightarrow> (exc + unit) \<times> state" where
  "create_instance_backup env instance_uuid inst_backup_kwargs s =
     (case mgr_get_vm_state env instance_uuid of
        Inl e \<Rightarrow> (Inl e, s)
      | Inr previous_vm_state \<Rightarrow>
          (let s1 = (if previous_vm_state = ''active'' then freeze_instance env s else s)
           in (case wait_for_backups env inst_backup_kwargs (MOST_BACKUP_RETRIES - 1) 0 s1 of
                 (Inl e, s2) \<Rightarrow> (Inl e, s2)
               | (Inr attempt, s2) \<Rightarrow>
                   (let s3 = (if attempt = MOST_BACKUP_RETRIES - 1
                              then timeout_all inst_backup_kwargs s2 else s2)
                    in if previous_vm_state = ''active'' then
                         (case thaw_instance env s3 of
                            (Some e, s4) \<Rightarrow> (Inl e, s4)
                          | (None, s4) \<Rightarrow> (Inr (), s4))
                       else (Inr (), s3)))))"

text \<open>
  The store that the \<open>i\<close>-th turn of the wait loop reads when no earlier turn left the
  loop: the workers have run \<open>i\<close> times.
\<close>

primrec store_at_turn :: "mgr_env \<Rightarrow> state \<Rightarrow> nat \<Rightarrow> state" where
  "store_at_turn env s 0 = s"
| "store_at_turn env s (Suc i) = mgr_workers env i (store_at_turn env s i)"

section \<open>Scenarios\<close>

text \<open>
  Concrete stores and collaborators on which the properties below are evaluated: one
  volume \<open>v1\<close> on \<open>hostA\<close> with an enabled backup service, and backups of that
  volume.
\<close>

definition ex_host_part :: "string \<Rightarrow> string \<Rightarrow> string" where
  "ex_host_part h level =
     (if level = ''host'' then takeWhile (\<lambda>c. c \<noteq> CHR ''@'') (takeWhile (\<lambda>c. c \<noteq> CHR ''#'') h)
      else takeWhile (\<lambda>c. c \<noteq> CHR ''#'') h)"

definition ex_api_env :: api_env where
  "ex_api_env =
     \<lparr>policy_enforce = (\<lambda>_. True), extract_host = ex_host_part,
      quota_reserve = Reserved [''r1''], quota_commit = None, quota_rollback = None,
      db_backup_create = Inr (''b-new'', 100), db_backup_destroy = None,
      nova_get_server = (\<lambda>_. Inr ''SHUTOFF''),
      volume_api_create = (\<lambda>_ _ _ _. Inl (CollaboratorError ''no volume service'')),
      volume_service_step = (\<lambda>_ s. s),
      rpc_call_reply = (\<lambda>m. Inr ((''backup_service'', ''cinder.backup.drivers.bcec'') # m_args m))\<rparr>"

definition ex_ctx :: ctx where
  "ex_ctx = \<lparr>c_user_id = ''u1'', c_project_id = ''p1'', c_is_admin = False, c_periodic = False\<rparr>"

definition ex_volume :: volume where
  "ex_volume =
     \<lparr>v_id = ''v1'', v_status = Some ''available'', v_size = 10, v_host = ''hostA@lvm'',
      v_availability_zone = ''nova'', v_display_description = Some ''data'',
      v_volume_attachment = [], v_volume_type = Some ''ebs-data''\<rparr>"

definition ex_backup :: "string \<Rightarrow> string \<Rightarrow> string option \<Rightarrow> int \<Rightarrow> backup" where
  "ex_backup bid status description t =
     \<lparr>b_id = bid, b_volume_id = ''v1'', b_status = status, b_size = Some 0,
      b_container = None, b_parent_id = None, b_host = Some ''hostA'',
      b_service = Some ''cinder.backup.drivers.bcec'', b_display_name = None,
      b_display_description = description, b_fail_reason = None,
      b_availability_zone = None, b_user_id = ''u1'', b_project_id = ''p1'',
      b_created_at = t\<rparr>"

definition ex_state :: "backup list \<Rightarrow> state" where
  "ex_state bks =
     \<lparr>volumes = [ex_volume], backups = bks,
      services = [\<lparr>srv_host = ''hostA'', srv_availability_zone = ''nova'',
                   srv_disabled = False, srv_is_up = True\<rparr>],
      quota_log = [], bus = [], driver_log = [], compute_log = []\<rparr>"

definition ex_chain :: "backup list" where
  "ex_chain =
     [ex_backup ''b3'' ''error'' None 5,
      ex_backup ''b1'' ''available'' (Some ''weekly'') 10,
      ex_backup ''b2'' ''available'' (Some ''%#periodic%#nightly'') 30]"

definition ex_usages :: "int dict dict" where
  "ex_usages =
     [(''backups'', [(''reserved'', 1), (''in_use'', 9)]),
      (''backup_gigabytes'', [(''reserved'', 10), (''in_use'', 990)])]"

definition ex_quotas :: "int dict" where
  "ex_quotas = [(''backups'', 10), (''backup_gigabytes'', 1000)]"

definition ex_mgr_env :: mgr_env where
  "ex_mgr_env =
     \<lparr>mgr_host = ''hostA'', mgr_backup_driver = ''cinder.backup.drivers.bcec'',
      mgr_az = ''nova'', mgr_volume_managers = [''lvm''], mgr_extract_host = ex_host_part,
      mgr_driver_initialized = (\<lambda>_. None),
      mgr_backup_volume = (\<lambda>_. Inr (Some 2048, Some ''sheepdog'')),
      mgr_restore_backup = (\<lambda>_ _. None), mgr_driver_delete = (\<lambda>_. None),
      mgr_detach_volume =
        (\<lambda>_ aid v. Inr (v\<lparr>v_volume_attachment :=
                              filter (\<lambda>a. a_id a \<noteq> aid) (v_volume_attachment v)\<rparr>)),
      mgr_quota_reserve = Inr [''r-del''], mgr_quota_commit = None,
      mgr_get_vm_state = (\<lambda>_. Inr ''active''), mgr_exec_cmd = None,
      mgr_thaw_filesystem = (\<lambda>_. None),
      mgr_workers = (\<lambda>_ s. s)\<rparr>"

text \<open>
  One complete restore onto a given volume: the call of \<^verbatim>\<open>API.restore\<close> followed by
  the execution of the \<^verbatim>\<open>restore_backup\<close> message it cast; \<open>None\<close> when either
  fails.
\<close>

definition ex_full_restore :: "string \<Rightarrow> string \<Rightarrow> state \<Rightarrow> state option" where
  "ex_full_restore backup_id volume_id s =
     (case restore ex_api_env backup_id (Some volume_id) s of
        Some (Inr _, s1) \<Rightarrow>
          (case restore_backup ex_mgr_env ex_ctx backup_id volume_id s1 of
             (Inr _, s2) \<Rightarrow> Some s2
           | (Inl _, _) \<Rightarrow> None)
      | _ \<Rightarrow> None)"

definition ex_two_backups :: "backup list" where
  "ex_two_backups =
     [ex_backup ''b1'' ''available'' (Some ''weekly'') 10,
      ex_backup ''b2'' ''available'' (Some ''monthly'') 20]"

definition ex_group :: "inst_backup_kwarg list" where
  "ex_group =
     [\<lparr>k_host = Some ''hostA'', k_backup_id = ''b1'', k_volume_id = ''v1''\<rparr>,
      \<lparr>k_host = Some ''hostA'', k_backup_id = ''b2'', k_volume_id = ''v1''\<rparr>]"

definition ex_group_backups :: "backup list" where
  "ex_group_backups =
     [ex_backup ''b1'' ''available'' (Some ''weekly'') 10,
      ex_backup ''b2'' ''creating'' (Some ''weekly'') 20]"

text \<open>
  The store during an instance backup with two member backups of \<open>v1\<close>, a volume
  of the Fujitsu type: \<open>b1\<close> is finished, \<open>b2\<close> is \<^verbatim>\<open>creating\<close> and its description
  carries no clone-session marker.
\<close>

definition ex_group_state :: state where
  "ex_group_state =
     (ex_state ex_group_backups)
       \<lparr>volumes := [ex_volume\<lparr>v_volume_type := Some ''fujitsu-ipsan''\<rparr>]\<rparr>"





chapter \<open>Properties\<close>

section \<open>Choice of the parent backup\<close>








section \<open>Quota failure, insertion and commit in \<^verbatim>\<open>create\<close>\<close>

lemma over_quota_loop_Some:
  "over_quota_loop vsize usages quotas overs = Some e \<Longrightarrow>
     \<exists>over \<in> set overs. str_in ''gigabytes'' over \<or> str_in ''backups'' over"
  by (induction overs) (auto split: if_splits)

lemma over_quota_loop_None:
  "\<forall>over \<in> set overs. \<not> str_in ''gigabytes'' over \<and> \<not> str_in ''backups'' over \<Longrightarrow>
     over_quota_loop vsize usages quotas overs = None"
  by (induction overs) auto


lemma create_precheck_passed:
  assumes "check_policy env ''create'' = None"
    and "volume_get s volume_id = Inr volume"
    and "v_status volume = Some ''available''"
    and "is_backup_service_enabled s volume (extract_host env (v_host volume) ''host'')"
  shows "create_precheck env volume_id s =
           (case create_reserve env volume of
              Inl e \<Rightarrow> Inl e
            | Inr reservations \<Rightarrow>
                Inr (volume, extract_host env (v_host volume) ''host'', reservations))"
  using assms by (simp add: create_precheck_def Let_def)

lemma QUOTAS_commit_unbound:
  "QUOTAS_commit env None s = (Some (UnboundLocalError ''reservations''), s)"
  by (simp add: QUOTAS_commit_def)

lemma destroy_and_rollback_unbound:
  "fst (destroy_and_rollback env bk None s) = Some (UnboundLocalError ''reservations'')"
  by (simp add: destroy_and_rollback_def QUOTAS_rollback_def split: prod.splits)

lemma save_and_reraise_exception_body:
  "fst body = Some e \<Longrightarrow> fst (save_and_reraise_exception saved body) = e"
  by (cases body) (simp add: save_and_reraise_exception_def)

lemma create_insert_unbound:
  "fst (create_insert env options None s) = Inl (UnboundLocalError ''reservations'')"
proof (cases "db_backup_create env")
  case (Inl e)
  then show ?thesis
    using save_and_reraise_exception_body [OF destroy_and_rollback_unbound, of e env None s]
    by (simp add: create_insert_def Let_def case_prod_beta)
next
  case (Inr p)
  obtain bid t where p: "p = (bid, t)" by (cases p)
  show ?thesis
    using Inr p
      save_and_reraise_exception_body [OF destroy_and_rollback_unbound,
        of "UnboundLocalError ''reservations''" env
           "Some (options\<lparr>b_id := bid, b_created_at := t\<rparr>)"
           "s\<lparr>backups := backups s @ [options\<lparr>b_id := bid, b_created_at := t\<rparr>]\<rparr>"]
    by (simp add: create_insert_def QUOTAS_commit_unbound Let_def case_prod_beta)
qed

lemma QUOTAS_commit_volumes: "volumes (snd (QUOTAS_commit env r s)) = volumes s"
  by (simp add: QUOTAS_commit_def split: option.splits)

lemma QUOTAS_rollback_volumes: "volumes (snd (QUOTAS_rollback env r s)) = volumes s"
  by (simp add: QUOTAS_rollback_def split: option.splits)

lemma destroy_and_rollback_volumes:
  "volumes (snd (destroy_and_rollback env bk r s)) = volumes s"
proof -
  have d: "volumes (snd (case bk of
               None \<Rightarrow> (Some (UnboundLocalError ''backup''), s)
             | Some b \<Rightarrow> (case db_backup_destroy env of
                    Some e \<Rightarrow> (Some e, s)
                  | None \<Rightarrow> (None, backup_destroy (b_id b) s)))) = volumes s"
    by (simp add: backup_destroy_def split: option.splits)
  show ?thesis
    unfolding destroy_and_rollback_def Let_def
    using d QUOTAS_rollback_volumes
    by (auto split: prod.splits option.splits) (metis snd_conv)+
qed

lemma save_and_reraise_exception_state:
  "snd (save_and_reraise_exception saved body) = snd body"
  by (cases body) (simp add: save_and_reraise_exception_def split: option.splits)

lemma create_insert_volumes: "volumes (snd (create_insert env options reservations s)) = volumes s"
proof (cases "db_backup_create env")
  case (Inl e)
  then show ?thesis
    using save_and_reraise_exception_state
            [of e "destroy_and_rollback env None reservations s"]
          destroy_and_rollback_volumes [of env None reservations s]
    by (simp add: create_insert_def Let_def case_prod_beta)
next
  case (Inr p)
  obtain bid t where p: "p = (bid, t)" by (cases p)
  let ?bk = "options\<lparr>b_id := bid, b_created_at := t\<rparr>"
  let ?s1 = "s\<lparr>backups := backups s @ [?bk]\<rparr>"
  obtain c s2 where com: "QUOTAS_commit env reservations ?s1 = (c, s2)"
    by (cases "QUOTAS_commit env reservations ?s1")
  have v2: "volumes s2 = volumes s"
    using QUOTAS_commit_volumes [of env reservations ?s1] com by simp
  show ?thesis
  proof (cases c)
    case None
    then show ?thesis using Inr p com v2 by (simp add: create_insert_def Let_def)
  next
    case (Some e)
    then show ?thesis
      using Inr p com v2
        save_and_reraise_exception_state [of e "destroy_and_rollback env (Some ?bk) reservations s2"]
        destroy_and_rollback_volumes [of env "Some ?bk" reservations s2]
      by (simp add: create_insert_def Let_def case_prod_beta)
  qed
qed

lemma create_after_precheck:
  assumes pre: "create_precheck env volume_id s = Inr (volume, volume_host, reservations)"
    and par: "choose_parent (find_latest_backup (c_periodic ctxt) incremental
                (backup_get_all_by_volume s volume_id)) = Inr parent_id"
  shows "fst (create env ctxt name description volume_id container incremental s) =
           fst (create_insert env
                  (create_options ctxt name
                     (periodic_description (c_periodic ctxt) description)
                     volume_id container parent_id volume_host)
                  reservations
                  (volume_update volume_id (\<lambda>v. v\<lparr>v_status := Some ''backing-up''\<rparr>) s))"
    and "volumes (snd (create env ctxt name description volume_id container incremental s)) =
           volumes (volume_update volume_id (\<lambda>v. v\<lparr>v_status := Some ''backing-up''\<rparr>) s)"
proof -
  let ?s1 = "volume_update volume_id (\<lambda>v. v\<lparr>v_status := Some ''backing-up''\<rparr>) s"
  let ?opts = "create_options ctxt name
                 (periodic_description (c_periodic ctxt) description)
                 volume_id container parent_id volume_host"
  obtain r s2 where ins: "create_insert env ?opts reservations ?s1 = (r, s2)"
    by (cases "create_insert env ?opts reservations ?s1")
  have vols: "volumes s2 = volumes ?s1"
    using create_insert_volumes [of env ?opts reservations ?s1] ins by simp
  show "fst (create env ctxt name description volume_id container incremental s) =
          fst (create_insert env ?opts reservations ?s1)"
    unfolding create_def pre using par ins
    by (cases r) (simp_all add: Let_def create_record_def)
  show "volumes (snd (create env ctxt name description volume_id container incremental s)) =
          volumes ?s1"
    unfolding create_def pre using par ins vols
    by (cases r) (simp_all add: Let_def create_record_def rpc_create_backup_def)
qed

text \<open>
  Claim C10. The quota handler of \<^verbatim>\<open>create\<close> raises only when some overrun resource
  name contains \<^verbatim>\<open>gigabytes\<close> or \<^verbatim>\<open>backups\<close>. For an \<^verbatim>\<open>OverQuota\<close> whose overrun
  list names only other resources the loop ends without raising, the checks are
  passed with the variable \<^verbatim>\<open>reservations\<close> never assigned, and \<^verbatim>\<open>create\<close> can only
  end with \<open>InvalidBackup\<close> from the parent choice or with the
  \<open>UnboundLocalError\<close> for \<^verbatim>\<open>reservations\<close>, never with a quota error; when the parent
  choice does not raise, the volume has been set to \<^verbatim>\<open>backing-up\<close> by then.
\<close>

theorem create_over_quota_fall_through:
  "(\<forall>e. over_quota_loop vsize usages quotas overs = Some e \<longrightarrow>
         (\<exists>over \<in> set overs. str_in ''gigabytes'' over \<or> str_in ''backups'' over)) \<and>
   ((\<forall>over \<in> set overs. \<not> str_in ''gigabytes'' over \<and> \<not> str_in ''backups'' over) \<longrightarrow>
      over_quota_loop vsize usages quotas overs = None \<and>
      (check_policy env ''create'' = None \<and> volume_get s volume_id = Inr volume \<and>
       v_status volume = Some ''available'' \<and>
       is_backup_service_enabled s volume (extract_host env (v_host volume) ''host'') \<and>
       quota_reserve env = OverQuota overs usages quotas \<and> vsize = v_size volume \<longrightarrow>
         create_precheck env volume_id s =
           Inr (volume, extract_host env (v_host volume) ''host'', None) \<and>
         (fst (create env ctxt name description volume_id container incremental s)
            = Inl InvalidBackup \<or>
          fst (create env ctxt name description volume_id container incremental s)
            = Inl (UnboundLocalError ''reservations'')) \<and>
         (choose_parent (find_latest_backup (c_periodic ctxt) incremental
             (backup_get_all_by_volume s volume_id)) \<noteq> Inl InvalidBackup \<longrightarrow>
            fst (create env ctxt name description volume_id container incremental s)
              = Inl (UnboundLocalError ''reservations'') \<and>
            volumes (snd (create env ctxt name description volume_id container incremental s))
              = volumes (volume_update volume_id (\<lambda>v. v\<lparr>v_status := Some ''backing-up''\<rparr>) s))))"
proof -
  let ?run = "create env ctxt name description volume_id container incremental s"
  let ?par = "choose_parent (find_latest_backup (c_periodic ctxt) incremental
                (backup_get_all_by_volume s volume_id))"
  have a: "\<forall>e. over_quota_loop vsize usages quotas overs = Some e \<longrightarrow>
             (\<exists>over \<in> set overs. str_in ''gigabytes'' over \<or> str_in ''backups'' over)"
    using over_quota_loop_Some by blast
  have b: "over_quota_loop vsize usages quotas overs = None"
    if "\<forall>over \<in> set overs. \<not> str_in ''gigabytes'' over \<and> \<not> str_in ''backups'' over"
    using that by (rule over_quota_loop_None)
  have c: "create_precheck env volume_id s =
             Inr (volume, extract_host env (v_host volume) ''host'', None) \<and>
           (fst ?run = Inl InvalidBackup \<or> fst ?run = Inl (UnboundLocalError ''reservations'')) \<and>
           (?par \<noteq> Inl InvalidBackup \<longrightarrow>
              fst ?run = Inl (UnboundLocalError ''reservations'') \<and>
              volumes (snd ?run)
                = volumes (volume_update volume_id (\<lambda>v. v\<lparr>v_status := Some ''backing-up''\<rparr>) s))"
    if other: "\<forall>over \<in> set overs. \<not> str_in ''gigabytes'' over \<and> \<not> str_in ''backups'' over"
      and pol: "check_policy env ''create'' = None"
      and vol: "volume_get s volume_id = Inr volume"
      and av: "v_status volume = Some ''available''"
      and srv: "is_backup_service_enabled s volume (extract_host env (v_host volume) ''host'')"
      and q: "quota_reserve env = OverQuota overs usages quotas"
      and sz: "vsize = v_size volume"
  proof -
    have res: "create_reserve env volume = Inr None"
      using b [OF other] q sz by (simp add: create_reserve_def)
    have pre: "create_precheck env volume_id s =
                 Inr (volume, extract_host env (v_host volume) ''host'', None)"
      using create_precheck_passed [OF pol vol av srv] res by simp
    show ?thesis
    proof (cases ?par)
      case (Inl e)
      then have "e = InvalidBackup"
        by (auto simp: choose_parent_def split: option.splits if_splits)
      with Inl have "fst ?run = Inl InvalidBackup"
        unfolding create_def pre by (simp add: Let_def)
      with pre Inl \<open>e = InvalidBackup\<close> show ?thesis by simp
    next
      case (Inr parent_id)
      from create_after_precheck [OF pre Inr]
      have "fst ?run = Inl (UnboundLocalError ''reservations'')"
        and "volumes (snd ?run)
               = volumes (volume_update volume_id (\<lambda>v. v\<lparr>v_status := Some ''backing-up''\<rparr>) s)"
        by (simp_all add: create_insert_unbound)
      with pre show ?thesis by simp
    qed
  qed
  from a b c show ?thesis by blast
qed

lemma ex_volume_checks:
  "check_policy (ex_api_env\<lparr>quota_reserve := q\<rparr>) ''create'' = None"
  "volume_get (ex_state bks) ''v1'' = Inr ex_volume"
  "v_status ex_volume = Some ''available''"
  "is_backup_service_enabled (ex_state bks) ex_volume
     (extract_host (ex_api_env\<lparr>quota_reserve := q\<rparr>) (v_host ex_volume) ''host'')"
  by (simp_all add: check_policy_def ex_api_env_def volume_get_def ex_state_def ex_volume_def
      is_backup_service_enabled_def ex_host_part_def)

theorem create_over_quota_fall_through_witness:
  "\<not> str_in ''gigabytes'' ''volumes'' \<and> \<not> str_in ''backups'' ''volumes'' \<and>
   over_quota_loop 10 ex_usages ex_quotas [''volumes''] = None \<and>
   fst (create (ex_api_env\<lparr>quota_reserve := OverQuota [''volumes''] ex_usages ex_quotas\<rparr>)
          ex_ctx None None ''v1'' None False (ex_state []))
     = Inl (UnboundLocalError ''reservations'') \<and>
   map v_status
     (volumes (snd (create (ex_api_env\<lparr>quota_reserve := OverQuota [''volumes''] ex_usages ex_quotas\<rparr>)
          ex_ctx None None ''v1'' None False (ex_state []))))
     = [Some ''backing-up'']"
proof -
  let ?env = "ex_api_env\<lparr>quota_reserve := OverQuota [''volumes''] ex_usages ex_quotas\<rparr>"
  have other: "\<forall>over \<in> set [''volumes''].
                 \<not> str_in ''gigabytes'' over \<and> \<not> str_in ''backups'' over"
    by (simp add: str_in_def)
  have q: "quota_reserve ?env = OverQuota [''volumes''] ex_usages ex_quotas" by simp
  have par: "choose_parent (find_latest_backup (c_periodic ex_ctx) False
               (backup_get_all_by_volume (ex_state []) ''v1'')) \<noteq> Inl InvalidBackup"
    by (simp add: find_latest_backup_def choose_parent_def)
  have sz: "(10::int) = v_size ex_volume" by (simp add: ex_volume_def)
  have upd: "map v_status (volumes (volume_update ''v1'' (\<lambda>v. v\<lparr>v_status := Some ''backing-up''\<rparr>)
               (ex_state []))) = [Some ''backing-up'']"
    by (simp add: volume_update_def ex_state_def ex_volume_def)
  from create_over_quota_fall_through
         [where vsize = 10 and usages = ex_usages and quotas = ex_quotas
            and overs = "[''volumes'']" and env = ?env and s = "ex_state []"
            and volume_id = "''v1''" and volume = ex_volume and ctxt = ex_ctx
            and incremental = False and name = None and description = None
            and container = None]
       other ex_volume_checks q par sz upd
  show ?thesis by simp
qed





lemma create_insert_insertion_raises:
  assumes "db_backup_create env = Inl e" and "quota_rollback env = None"
  shows "create_insert env options (Some r) s =
           (Inl (UnboundLocalError ''backup''), s\<lparr>quota_log := quota_log s @ [QRollback r]\<rparr>)"
  using assms
  by (simp add: create_insert_def destroy_and_rollback_def QUOTAS_rollback_def
      save_and_reraise_exception_def)

lemma create_insert_commit_raises:
  assumes "db_backup_create env = Inr (bid, t)" and "quota_commit env = Some e"
    and "db_backup_destroy env = None" and "quota_rollback env = None"
  shows "create_insert env options (Some r) s =
           (Inl e, s\<lparr>backups := filter (\<lambda>b. b_id b \<noteq> bid)
                                  (backups s @ [options\<lparr>b_id := bid, b_created_at := t\<rparr>]),
                     quota_log := quota_log s @ [QRollback r]\<rparr>)"
  using assms
  by (simp add: create_insert_def destroy_and_rollback_def QUOTAS_rollback_def
      QUOTAS_commit_def save_and_reraise_exception_def backup_destroy_def Let_def)

lemma create_insert_succeeds:
  assumes "db_backup_create env = Inr (bid, t)" and "quota_commit env = None"
  shows "create_insert env options (Some r) s =
           (Inr (options\<lparr>b_id := bid, b_created_at := t\<rparr>),
            s\<lparr>backups := backups s @ [options\<lparr>b_id := bid, b_created_at := t\<rparr>],
              quota_log := quota_log s @ [QCommit r]\<rparr>)"
  using assms by (simp add: create_insert_def QUOTAS_commit_def Let_def)

lemma create_accepts:
  assumes pre: "create_precheck env volume_id s = Inr (volume, volume_host, Some r)"
    and par: "choose_parent (find_latest_backup (c_periodic ctxt) incremental
                (backup_get_all_by_volume s volume_id)) = Inr parent_id"
    and ins: "db_backup_create env = Inr (bid, t)"
    and com: "quota_commit env = None"
  shows "\<exists>bk s'. create env ctxt name description volume_id container incremental s
                    = (Inr bk, s') \<and>
                 b_id bk = bid \<and> b_status bk = ''creating'' \<and> b_size bk = Some 0 \<and>
                 b_parent_id bk = parent_id \<and> b_host bk = Some volume_host \<and>
                 backups s' = backups s @ [bk] \<and>
                 quota_log s' = quota_log s @ [QCommit r] \<and>
                 bus s' = bus s @ [\<lparr>m_mode = Cast, m_server = Some volume_host,
                                     m_method = ''create_backup'',
                                     m_args = [(''backup_id'', bid)], m_hosts = []\<rparr>]"
  unfolding create_def pre
  using par
  by (simp add: Let_def create_record_def create_insert_succeeds [OF ins com]
      create_options_def rpc_create_backup_def volume_update_def)

text \<open>
  Claim C4 at a call whose insertion raises: \<^verbatim>\<open>backup\<close> was never assigned, so the
  handler raises \<open>UnboundLocalError\<close> on \<^verbatim>\<open>backup['id']\<close>; the reservation is still
  rolled back, the exception of the insertion is dropped, and the volume stays
  \<^verbatim>\<open>backing-up\<close>.
\<close>

theorem create_insertion_failure_drops_exception:
  "fst (create (ex_api_env\<lparr>db_backup_create := Inl (CollaboratorError ''DBError'')\<rparr>)
          ex_ctx (Some ''n'') None ''v1'' None False (ex_state []))
     = Inl (UnboundLocalError ''backup'') \<and>
   quota_log (snd (create (ex_api_env\<lparr>db_backup_create := Inl (CollaboratorError ''DBError'')\<rparr>)
          ex_ctx (Some ''n'') None ''v1'' None False (ex_state [])))
     = [QRollback [''r1'']] \<and>
   map v_status
     (volumes (snd (create (ex_api_env\<lparr>db_backup_create := Inl (CollaboratorError ''DBError'')\<rparr>)
          ex_ctx (Some ''n'') None ''v1'' None False (ex_state []))))
     = [Some ''backing-up'']"
  by code_simp

section \<open>The parent of the new backup\<close>


lemma backups_QUOTAS_rollback: "backups (snd (QUOTAS_rollback env r s)) = backups s"
  by (simp add: QUOTAS_rollback_def split: option.splits)








section \<open>The size check of \<^verbatim>\<open>restore\<close>\<close>

lemma restore_checked_too_small:
  assumes "check_restore_volume env volume = None" and "size' > v_size volume * 1024"
  shows "restore_checked env backup backup_id size' volume volume_id s =
           (Inl InvalidVolume,
            volume_update volume_id (\<lambda>v. v\<lparr>v_display_description := v_status volume\<rparr>) s)"
  using assms by (simp add: restore_checked_def Let_def)

text \<open>
  Claim C6 at a restore of a 20480 MB backup onto the 10 GB volume \<open>v1\<close>: the call
  fails with \<open>InvalidVolume\<close>, but the status of the volume has already been written
  into its \<^verbatim>\<open>display_description\<close>, which held \<^verbatim>\<open>data\<close> before the call.
\<close>

theorem restore_too_small_overwrites_description:
  "map_option fst
     (restore ex_api_env ''b1'' (Some ''v1'')
        (ex_state [(ex_backup ''b1'' ''available'' (Some ''weekly'') 10)\<lparr>b_size := Some 20480\<rparr>]))
     = Some (Inl InvalidVolume) \<and>
   map_option (\<lambda>r. map v_display_description (volumes (snd r)))
     (restore ex_api_env ''b1'' (Some ''v1'')
        (ex_state [(ex_backup ''b1'' ''available'' (Some ''weekly'') 10)\<lparr>b_size := Some 20480\<rparr>]))
     = Some [Some ''available''] \<and>
   map v_display_description
     (volumes (ex_state [(ex_backup ''b1'' ''available'' (Some ''weekly'') 10)\<lparr>b_size := Some 20480\<rparr>]))
     = [Some ''data'']"
  by code_simp

section \<open>Dispatch of export and import\<close>

text \<open>
  Claim C9, as the code has it. An export that passes its checks puts one \<^verbatim>\<open>call\<close>
  message for the host of the backup on the bus and returns the reply of that host.
  An import that finds a backup host and inserts its placeholder puts one \<^verbatim>\<open>cast\<close>
  message on the bus, for the last listed host and carrying the remaining hosts, and
  returns the placeholder in status \<^verbatim>\<open>creating\<close> without waiting for any reply.
\<close>

theorem export_call_import_cast:
  "(check_policy env ''backup-export'' = None \<and> api_get env s backup_id = Inr backup \<and>
    b_status backup = ''available'' \<longrightarrow>
      export_record env backup_id s =
        (rpc_call_reply env
           \<lparr>m_mode = Call, m_server = b_host backup, m_method = ''export_record'',
            m_args = [(''backup_id'', b_id backup)], m_hosts = []\<rparr>,
         s\<lparr>bus := bus s @
               [\<lparr>m_mode = Call, m_server = b_host backup, m_method = ''export_record'',
                 m_args = [(''backup_id'', b_id backup)], m_hosts = []\<rparr>]\<rparr>)) \<and>
   (check_policy env ''backup-import'' = None \<and> list_backup_services s \<noteq> [] \<and>
    db_backup_create env = Inr (bid, t) \<longrightarrow>
      import_record env ctxt backup_service backup_url s =
        (Inr ((import_options ctxt)\<lparr>b_id := bid, b_created_at := t\<rparr>),
         s\<lparr>backups := backups s @ [(import_options ctxt)\<lparr>b_id := bid, b_created_at := t\<rparr>],
           bus := bus s @
               [\<lparr>m_mode = Cast, m_server = Some (last (list_backup_services s)),
                 m_method = ''import_record'',
                 m_args = [(''backup_id'', bid), (''backup_service'', backup_service),
                           (''backup_url'', backup_url)],
                 m_hosts = butlast (list_backup_services s)\<rparr>]\<rparr>) \<and>
      b_status ((import_options ctxt)\<lparr>b_id := bid, b_created_at := t\<rparr>) = ''creating'')"
  by (simp add: export_record_def rpc_export_record_def import_record_def
      rpc_import_record_def import_options_def Let_def)

theorem export_call_import_cast_witness:
  "map m_mode (bus (snd (export_record ex_api_env ''b1'' (ex_state ex_chain)))) = [Call] \<and>
   fst (export_record ex_api_env ''b1'' (ex_state ex_chain))
     = Inr [(''backup_service'', ''cinder.backup.drivers.bcec''), (''backup_id'', ''b1'')] \<and>
   map m_mode (bus (snd (import_record ex_api_env ex_ctx ''cinder.backup.drivers.bcec''
                           ''url'' (ex_state ex_chain)))) = [Cast] \<and>
   map_sum id b_status (fst (import_record ex_api_env ex_ctx ''cinder.backup.drivers.bcec''
                           ''url'' (ex_state ex_chain))) = Inr ''creating''"
proof -
  have e1: "check_policy ex_api_env ''backup-export'' = None"
    and e2: "api_get ex_api_env (ex_state ex_chain) ''b1''
               = Inr (ex_backup ''b1'' ''available'' (Some ''weekly'') 10)"
    and e3: "b_status (ex_backup ''b1'' ''available'' (Some ''weekly'') 10) = ''available''"
    and i1: "check_policy ex_api_env ''backup-import'' = None"
    and i2: "list_backup_services (ex_state ex_chain) \<noteq> []"
    and i3: "db_backup_create ex_api_env = Inr (''b-new'', 100)"
    by (simp_all add: check_policy_def ex_api_env_def api_get_def backup_get_def ex_state_def
        ex_chain_def ex_backup_def list_backup_services_def)
  have reply: "rpc_call_reply ex_api_env
                 \<lparr>m_mode = Call, m_server = Some ''hostA'', m_method = ''export_record'',
                  m_args = [(''backup_id'', ''b1'')], m_hosts = []\<rparr>
               = Inr [(''backup_service'', ''cinder.backup.drivers.bcec''), (''backup_id'', ''b1'')]"
    by (simp add: ex_api_env_def)
  from export_call_import_cast
         [where env = ex_api_env and s = "ex_state ex_chain" and backup_id = "''b1''"
            and backup = "ex_backup ''b1'' ''available'' (Some ''weekly'') 10"
            and bid = "''b-new''" and t = 100 and ctxt = ex_ctx
            and backup_service = "''cinder.backup.drivers.bcec''" and backup_url = "''url''"]
       e1 e2 e3 i1 i2 i3 reply
  show ?thesis by (simp add: ex_backup_def ex_state_def)
qed

text \<open>Claim C9 as stated fails for import: its message is a \<^verbatim>\<open>cast\<close>, not a \<^verbatim>\<open>call\<close>.\<close>

theorem import_is_cast_counterexample:
  "map m_mode (bus (snd (import_record ex_api_env ex_ctx ''cinder.backup.drivers.bcec''
                           ''url'' (ex_state [])))) \<noteq> [Call] \<and>
   map m_mode (bus (snd (import_record ex_api_env ex_ctx ''cinder.backup.drivers.bcec''
                           ''url'' (ex_state [])))) = [Cast]"
  by code_simp

section \<open>Reads after updates\<close>

lemma backup_get_update:
  assumes "backup_get s bid = Inr b" and "\<And>x. b_id (f x) = b_id x"
  shows "backup_get (backup_update bid f s) bid = Inr (f b)"
proof -
  have "find (\<lambda>x. b_id x = bid) (map (\<lambda>x. if b_id x = bid then f x else x) bs)
          = map_option f (find (\<lambda>x. b_id x = bid) bs)" for bs
    by (induction bs) (simp_all add: assms(2))
  with assms(1) show ?thesis
    by (auto simp: backup_get_def backup_update_def split: option.splits)
qed

lemma volume_get_update:
  assumes "volume_get s vid = Inr v" and "\<And>x. v_id (f x) = v_id x"
  shows "volume_get (volume_update vid f s) vid = Inr (f v)"
proof -
  have "find (\<lambda>x. v_id x = vid) (map (\<lambda>x. if v_id x = vid then f x else x) vs)
          = map_option f (find (\<lambda>x. v_id x = vid) vs)" for vs
    by (induction vs) (simp_all add: assms(2))
  with assms(1) show ?thesis
    by (auto simp: volume_get_def volume_update_def split: option.splits)
qed

lemma backup_get_volume_update [simp]: "backup_get (volume_update vid f s) bid = backup_get s bid"
  by (simp add: backup_get_def volume_update_def)

lemma volume_get_backup_update [simp]: "volume_get (backup_update bid f s) vid = volume_get s vid"
  by (simp add: volume_get_def backup_update_def)

section \<open>A second delivery of \<^verbatim>\<open>create_backup\<close>\<close>

text \<open>
  Claim C8, as the code has it. When \<^verbatim>\<open>create_backup\<close> runs for a backup that is no
  longer \<^verbatim>\<open>creating\<close>, the precondition checks abort it before the backup driver is
  called, with \<open>InvalidVolume\<close> when the volume is not \<^verbatim>\<open>backing-up\<close> and with
  \<open>InvalidBackup\<close> otherwise. The delivery is not ignored: the host and service of
  the backup are overwritten and its status becomes \<^verbatim>\<open>error\<close> with a fail reason;
  the volumes are untouched in the first case, and in the second the volume is set to
  \<^verbatim>\<open>available\<close>.
\<close>

theorem create_backup_duplicate_delivery:
  assumes bak: "backup_get s backup_id = Inr bakup"
    and left: "b_status bakup \<noteq> ''creating''"
    and vol: "volume_get s (b_volume_id bakup) = Inr volume"
    and be: "get_volume_backend env (Some (mgr_extract_host env (v_host volume) ''backend''))
               False = Inr backend"
  shows "fst (create_backup env backup_id s) =
           (if v_status volume \<noteq> Some ''backing-up'' then Inl InvalidVolume
            else Inl InvalidBackup) \<and>
         driver_log (snd (create_backup env backup_id s)) = driver_log s \<and>
         (\<exists>b'. backup_get (snd (create_backup env backup_id s)) backup_id = Inr b' \<and>
               b_status b' = ''error'' \<and> b_fail_reason b' \<noteq> None \<and>
               b_host b' = Some (mgr_host env) \<and> b_service b' = Some (driver_name env)) \<and>
         (if v_status volume \<noteq> Some ''backing-up''
          then volumes (snd (create_backup env backup_id s)) = volumes s
          else \<exists>v'. volume_get (snd (create_backup env backup_id s)) (b_volume_id bakup)
                       = Inr v' \<and> v_status v' = Some ''available'')"
proof (cases "v_status volume \<noteq> Some ''backing-up''")
  case True
  let ?f = "\<lambda>b. b\<lparr>b_host := Some (mgr_host env), b_service := Some (driver_name env)\<rparr>"
  let ?g = "\<lambda>b. b\<lparr>b_status := ''error'',
                   b_fail_reason := Some (aborted_reason
                     ''Create backup aborted, expected volume status ''
                     ''backing-up'' (py_str (v_status volume)))\<rparr>"
  have run: "create_backup env backup_id s =
               (Inl InvalidVolume, backup_update backup_id ?g (backup_update backup_id ?f s))"
    using True by (simp add: create_backup_def bak vol be Let_def)
  have "backup_get (backup_update backup_id ?f s) backup_id = Inr (?f bakup)"
    by (rule backup_get_update [OF bak]) simp
  then have "backup_get (backup_update backup_id ?g (backup_update backup_id ?f s)) backup_id
               = Inr (?g (?f bakup))"
    by (rule backup_get_update) simp
  with run True show ?thesis by (simp add: backup_update_def)
next
  case False
  let ?vid = "b_volume_id bakup"
  let ?f = "\<lambda>b. b\<lparr>b_host := Some (mgr_host env), b_service := Some (driver_name env)\<rparr>"
  let ?g = "\<lambda>b. b\<lparr>b_status := ''error'',
                   b_fail_reason := Some (aborted_reason
                     ''Create backup aborted, expected backup status ''
                     ''creating'' (b_status bakup))\<rparr>"
  let ?h = "\<lambda>v. v\<lparr>v_status := Some ''available''\<rparr>"
  let ?s' = "backup_update backup_id ?g (volume_update ?vid ?h (backup_update backup_id ?f s))"
  have run: "create_backup env backup_id s = (Inl InvalidBackup, ?s')"
    using False left by (simp add: create_backup_def bak vol be Let_def)
  have "backup_get (backup_update backup_id ?f s) backup_id = Inr (?f bakup)"
    by (rule backup_get_update [OF bak]) simp
  then have "backup_get (volume_update ?vid ?h (backup_update backup_id ?f s)) backup_id
               = Inr (?f bakup)"
    by simp
  then have b: "backup_get ?s' backup_id = Inr (?g (?f bakup))"
    by (rule backup_get_update) simp
  have "volume_get (backup_update backup_id ?f s) ?vid = Inr volume"
    using vol by simp
  then have "volume_get (volume_update ?vid ?h (backup_update backup_id ?f s)) ?vid
               = Inr (?h volume)"
    by (rule volume_get_update) simp
  then have v: "volume_get ?s' ?vid = Inr (?h volume)" by simp
  have d: "driver_log ?s' = driver_log s"
    by (simp add: backup_update_def volume_update_def)
  from run False b v d show ?thesis by simp
qed

theorem create_backup_duplicate_delivery_witness:
  "fst (create_backup ex_mgr_env ''b1'' (ex_state ex_two_backups)) = Inl InvalidVolume \<and>
   map b_status (backups (snd (create_backup ex_mgr_env ''b1'' (ex_state ex_two_backups))))
     = [''error'', ''available''] \<and>
   volumes (snd (create_backup ex_mgr_env ''b1'' (ex_state ex_two_backups)))
     = volumes (ex_state ex_two_backups) \<and>
   driver_log (snd (create_backup ex_mgr_env ''b1'' (ex_state ex_two_backups))) = []"
proof -
  have bak: "backup_get (ex_state ex_two_backups) ''b1''
               = Inr (ex_backup ''b1'' ''available'' (Some ''weekly'') 10)"
    by (simp add: backup_get_def ex_state_def ex_two_backups_def ex_backup_def)
  have left: "b_status (ex_backup ''b1'' ''available'' (Some ''weekly'') 10) \<noteq> ''creating''"
    by (simp add: ex_backup_def)
  have vol: "volume_get (ex_state ex_two_backups)
               (b_volume_id (ex_backup ''b1'' ''available'' (Some ''weekly'') 10)) = Inr ex_volume"
    by (simp add: volume_get_def ex_state_def ex_volume_def ex_backup_def)
  have be: "get_volume_backend ex_mgr_env
              (Some (mgr_extract_host ex_mgr_env (v_host ex_volume) ''backend'')) False
              = Inr ''lvm''"
    by (simp add: get_volume_backend_def ex_mgr_env_def ex_volume_def ex_host_part_def
        partition_at_def)
  have st: "map b_status (backups (snd (create_backup ex_mgr_env ''b1'' (ex_state ex_two_backups))))
              = [''error'', ''available'']"
    by code_simp
  from create_backup_duplicate_delivery [OF bak left vol be] st
  show ?thesis by (simp add: ex_volume_def ex_state_def)
qed

text \<open>
  Claim C8 as stated fails: a second delivery for the finished backup \<open>b1\<close> turns
  its status from \<^verbatim>\<open>available\<close> into \<^verbatim>\<open>error\<close>.
\<close>

theorem create_backup_duplicate_delivery_counterexample:
  "map b_status (backups (ex_state ex_two_backups)) = [''available'', ''available''] \<and>
   map b_status (backups (snd (create_backup ex_mgr_env ''b1'' (ex_state ex_two_backups))))
     = [''error'', ''available'']"
  by code_simp

section \<open>The active marker after repeated restores\<close>

text \<open>
  Claim C7 after three successful restores onto \<open>v1\<close>: of \<open>b1\<close>, of \<open>b1\<close> again
  and then of \<open>b2\<close>. The second restore appends the marker to the description read
  before the loop removed it, so \<open>b1\<close> carries it twice; the third restore removes
  one of the two, and both backups of \<open>v1\<close> end with the marker.
\<close>

theorem repeated_restore_leaves_two_active_markers:
  "map_option (\<lambda>s. map b_display_description (backups s))
     (Option.bind
        (Option.bind (ex_full_restore ''b1'' ''v1'' (ex_state ex_two_backups))
           (ex_full_restore ''b1'' ''v1''))
        (ex_full_restore ''b2'' ''v1''))
     = Some [Some ''weekly!@##@!'', Some ''monthly!@##@!''] \<and>
   py_last6 ''weekly!@##@!'' = MAGICSTR \<and> py_last6 ''monthly!@##@!'' = MAGICSTR"
  by code_simp

section \<open>The time limit of the instance backup\<close>

lemma wait_for_backups_exhausts:
  assumes "\<forall>i \<le> n. poll_step (store_at_turn env s0 (a + i)) ks = Inr Sleep \<or>
                    poll_step (store_at_turn env s0 (a + i)) ks = Inr Again"
  shows "wait_for_backups env ks n a (store_at_turn env s0 a) =
           (Inr (a + n), store_at_turn env s0 (Suc (a + n)))"
  using assms
proof (induction n arbitrary: a)
  case 0
  then have "poll_step (store_at_turn env s0 a) ks = Inr Sleep \<or>
             poll_step (store_at_turn env s0 a) ks = Inr Again"
    by simp
  then show ?case by auto
next
  case (Suc n)
  from Suc.prems have now: "poll_step (store_at_turn env s0 a) ks = Inr Sleep \<or>
                            poll_step (store_at_turn env s0 a) ks = Inr Again"
    by (metis add.right_neutral le0)
  have later: "\<forall>i \<le> n. poll_step (store_at_turn env s0 (Suc a + i)) ks = Inr Sleep \<or>
                         poll_step (store_at_turn env s0 (Suc a + i)) ks = Inr Again"
  proof (intro allI impI)
    fix i assume "i \<le> n"
    then have "Suc i \<le> Suc n" by simp
    from Suc.prems [rule_format, OF this] show
      "poll_step (store_at_turn env s0 (Suc a + i)) ks = Inr Sleep \<or>
       poll_step (store_at_turn env s0 (Suc a + i)) ks = Inr Again"
      by simp
  qed
  have step: "wait_for_backups env ks (Suc n) a (store_at_turn env s0 a) =
                wait_for_backups env ks n (Suc a) (store_at_turn env s0 (Suc a))"
    using now by auto
  show ?case unfolding step using Suc.IH [OF later] by simp
qed

lemma backups_timeout_all:
  "backups (timeout_all ks s) =
     map (\<lambda>b. if b_id b \<in> k_backup_id ` set ks
               then b\<lparr>b_status := ''error'',
                      b_fail_reason := Some ''backing up isn't finished in 3600s''\<rparr>
               else b)
         (backups s)"
proof -
  let ?upd = "\<lambda>b::backup. b\<lparr>b_status := ''error'',
                 b_fail_reason := Some ''backing up isn't finished in 3600s''\<rparr>"
  let ?f = "\<lambda>st kwargs. backup_update (k_backup_id kwargs) ?upd st"
  have "backups (foldl ?f s ks) =
          map (\<lambda>b. if b_id b \<in> k_backup_id ` set ks then ?upd b else b) (backups s)"
  proof (induction ks arbitrary: s)
    case Nil
    then show ?case by simp
  next
    case (Cons k ks)
    have "backups (foldl ?f (?f s k) ks) =
            map (\<lambda>b. if b_id b \<in> k_backup_id ` set ks then ?upd b else b) (backups (?f s k))"
      by (rule Cons.IH)
    also have "\<dots> = map (\<lambda>b. if b_id b \<in> k_backup_id ` set (k # ks) then ?upd b else b)
                        (backups s)"
      by (simp add: backup_update_def)
    finally show ?case by simp
  qed
  then show ?thesis by (simp add: timeout_all_def)
qed

lemma backups_thaw_instance: "backups (snd (thaw_instance env s)) = backups s"
  by (simp add: thaw_instance_def Let_def split: option.splits exc.splits)

lemma create_instance_backup_exhausted:
  assumes vm: "mgr_get_vm_state env instance_uuid = Inr vm"
    and exhausted:
      "\<forall>i < MOST_BACKUP_RETRIES.
         poll_step (store_at_turn env (if vm = ''active'' then freeze_instance env s else s) i) ks
           = Inr Sleep \<or>
         poll_step (store_at_turn env (if vm = ''active'' then freeze_instance env s else s) i) ks
           = Inr Again"
  shows "backups (snd (create_instance_backup env instance_uuid ks s)) =
           map (\<lambda>b. if b_id b \<in> k_backup_id ` set ks
                     then b\<lparr>b_status := ''error'',
                            b_fail_reason := Some ''backing up isn't finished in 3600s''\<rparr>
                     else b)
               (backups (store_at_turn env (if vm = ''active'' then freeze_instance env s else s)
                           MOST_BACKUP_RETRIES))"
proof -
  let ?s1 = "if vm = ''active'' then freeze_instance env s else s"
  have "\<forall>i \<le> 719. poll_step (store_at_turn env ?s1 (0 + i)) ks = Inr Sleep \<or>
                     poll_step (store_at_turn env ?s1 (0 + i)) ks = Inr Again"
    using exhausted by (simp add: MOST_BACKUP_RETRIES_def)
  from wait_for_backups_exhausts [OF this]
  have loop: "wait_for_backups env ks (MOST_BACKUP_RETRIES - 1) 0 ?s1 =
                (Inr (MOST_BACKUP_RETRIES - 1), store_at_turn env ?s1 MOST_BACKUP_RETRIES)"
    by (simp add: MOST_BACKUP_RETRIES_def)
  let ?s3 = "timeout_all ks (store_at_turn env ?s1 MOST_BACKUP_RETRIES)"
  have "backups (snd (create_instance_backup env instance_uuid ks s)) = backups ?s3"
  proof (cases "vm = ''active''")
    case True
    obtain r s4 where th: "thaw_instance env ?s3 = (r, s4)" by (cases "thaw_instance env ?s3")
    then have "backups s4 = backups ?s3"
      using backups_thaw_instance [of env ?s3] by simp
    with True loop th show ?thesis
      by (cases r) (simp_all add: create_instance_backup_def vm Let_def)
  next
    case False
    with loop show ?thesis by (simp add: create_instance_backup_def vm Let_def)
  qed
  then show ?thesis by (simp add: backups_timeout_all)
qed

text \<open>
  Claim C2, as the code has it. When no turn of the wait loop of
  \<^verbatim>\<open>create_instance_backup\<close> leaves the loop, so that all 720 turns are used, every
  member of the group, whatever its status at that moment, is set to \<^verbatim>\<open>error\<close> with
  the reason \<^verbatim>\<open>backing up isn't finished in 3600s\<close>; the backups outside the group
  are as the workers left them.
\<close>

theorem instance_backup_timeout_marks_every_member:
  assumes vm: "mgr_get_vm_state env instance_uuid = Inr vm"
    and exhausted:
      "\<forall>i < MOST_BACKUP_RETRIES.
         poll_step (store_at_turn env (if vm = ''active'' then freeze_instance env s else s) i) ks
           = Inr Sleep \<or>
         poll_step (store_at_turn env (if vm = ''active'' then freeze_instance env s else s) i) ks
           = Inr Again"
  shows "backups (snd (create_instance_backup env instance_uuid ks s)) =
           map (\<lambda>b. if b_id b \<in> k_backup_id ` set ks
                     then b\<lparr>b_status := ''error'',
                            b_fail_reason := Some ''backing up isn't finished in 3600s''\<rparr>
                     else b)
               (backups (store_at_turn env (if vm = ''active'' then freeze_instance env s else s)
                           MOST_BACKUP_RETRIES))"
  using create_instance_backup_exhausted [OF vm exhausted] .

lemma ex_store_at_turn: "store_at_turn ex_mgr_env s i = s"
  by (induction i) (simp_all add: ex_mgr_env_def)

lemma ex_group_never_done:
  "\<forall>i < MOST_BACKUP_RETRIES.
     poll_step (store_at_turn ex_mgr_env
                  (if ''active'' = ''active''
                   then freeze_instance ex_mgr_env ex_group_state
                   else ex_group_state) i) ex_group
       = Inr Sleep \<or>
     poll_step (store_at_turn ex_mgr_env
                  (if ''active'' = ''active''
                   then freeze_instance ex_mgr_env ex_group_state
                   else ex_group_state) i) ex_group
       = Inr Again"
proof -
  have "poll_step (freeze_instance ex_mgr_env ex_group_state) ex_group = Inr Sleep"
    by code_simp
  then show ?thesis by (simp add: ex_store_at_turn)
qed

lemma ex_vm_state: "mgr_get_vm_state ex_mgr_env ''i1'' = Inr ''active''"
  by (simp add: ex_mgr_env_def)

theorem instance_backup_timeout_marks_every_member_witness:
  "map b_status (backups ex_group_state) = [''available'', ''creating''] \<and>
   map (\<lambda>b. (b_status b, b_fail_reason b))
     (backups (snd (create_instance_backup ex_mgr_env ''i1'' ex_group
                      ex_group_state)))
     = [(''error'', Some ''backing up isn't finished in 3600s''),
        (''error'', Some ''backing up isn't finished in 3600s'')]"
proof -
  have final:
    "backups (snd (create_instance_backup ex_mgr_env ''i1'' ex_group ex_group_state))
       = map (\<lambda>b. if b_id b \<in> k_backup_id ` set ex_group
                   then b\<lparr>b_status := ''error'',
                          b_fail_reason := Some ''backing up isn't finished in 3600s''\<rparr>
                   else b)
             (backups (freeze_instance ex_mgr_env ex_group_state))"
    using instance_backup_timeout_marks_every_member [OF ex_vm_state ex_group_never_done]
    by (simp add: ex_store_at_turn)
  show ?thesis unfolding final by code_simp
qed

text \<open>
  Claim C2 as stated fails: in a group, on a volume of the Fujitsu type, of a
  finished backup \<open>b1\<close> and a backup \<open>b2\<close> that stays \<^verbatim>\<open>creating\<close> with no clone
  session, the time limit also turns \<open>b1\<close> from \<^verbatim>\<open>available\<close> into \<^verbatim>\<open>error\<close>.
\<close>

theorem instance_backup_timeout_counterexample:
  "map v_volume_type (volumes ex_group_state) = [Some ''fujitsu-ipsan''] \<and>
   poll_step (freeze_instance ex_mgr_env ex_group_state) ex_group = Inr Sleep \<and>
   map b_status (backups ex_group_state) = [''available'', ''creating''] \<and>
   map b_status (backups (snd (create_instance_backup ex_mgr_env ''i1'' ex_group
                                  ex_group_state)))
     = [''error'', ''error'']"
proof -
  have final:
    "backups (snd (create_instance_backup ex_mgr_env ''i1'' ex_group ex_group_state))
       = map (\<lambda>b. if b_id b \<in> k_backup_id ` set ex_group
                   then b\<lparr>b_status := ''error'',
                          b_fail_reason := Some ''backing up isn't finished in 3600s''\<rparr>
                   else b)
             (backups (freeze_instance ex_mgr_env ex_group_state))"
    using create_instance_backup_exhausted [OF ex_vm_state ex_group_never_done]
    by (simp add: ex_store_at_turn)
  show ?thesis unfolding final by code_simp
qed

section \<open>The sweep at start\<close>

subsection \<open>Writes leave the other records alone\<close>






lemma backup_get_logs [simp]:
  "backup_get (s\<lparr>driver_log := d\<rparr>) bid = backup_get s bid"
  "backup_get (s\<lparr>quota_log := q\<rparr>) bid = backup_get s bid"
  by (simp_all add: backup_get_def)

lemma backups_volume_update [simp]: "backups (volume_update vid f s) = backups s"
  by (simp add: volume_update_def)



subsection \<open>The sweep over the volumes\<close>






subsection \<open>The sweep over the backups\<close>








lemma volumes_backup_update [simp]: "volumes (backup_update bid f s) = volumes s"
  by (simp add: backup_update_def)

lemma volumes_backup_destroy [simp]: "volumes (backup_destroy bid s) = volumes s"
  by (simp add: backup_destroy_def)








subsection \<open>The sweep ends when no collaborator raises\<close>









end
